theory Spec2Isabelle
  imports Complex_Main "HOL-Library.Multiset" "HOL-Library.Char_ord"
begin

section \<open>JavaScript strings\<close>

text \<open>
  A JavaScript string is modelled as a \<^typ>\<open>string\<close>: a list of code units, here the
  code units below 256 (ASCII and Latin-1).  The built-in methods the sources call are
  written out on that range.
\<close>

definition js_space :: "char \<Rightarrow> bool" where
  \<comment> \<open>WhiteSpace and LineTerminator of ECMAScript below 256: TAB, LF, VT, FF, CR, SP, NBSP.\<close>
  "js_space c = (c \<in> set [CHR 0x09, CHR 0x0A, CHR 0x0B, CHR 0x0C, CHR 0x0D, CHR 0x20, CHR 0xA0])"

definition trim :: "string \<Rightarrow> string" where
  \<comment> \<open>\<open>String.prototype.trim\<close>\<close>
  "trim s = rev (dropWhile js_space (rev (dropWhile js_space s)))"

definition lower_char :: "char \<Rightarrow> char" where
  "lower_char c =
     (let n = (of_char c :: nat)
      in if (65 \<le> n \<and> n \<le> 90) \<or> (192 \<le> n \<and> n \<le> 222 \<and> n \<noteq> 215)
         then char_of (n + 32) else c)"

definition toLowerCase :: "string \<Rightarrow> string" where
  \<comment> \<open>\<open>String.prototype.toLowerCase\<close>\<close>
  "toLowerCase s = map lower_char s"

definition startsWith :: "string \<Rightarrow> string \<Rightarrow> bool" where
  \<comment> \<open>\<open>s.startsWith(p)\<close>\<close>
  "startsWith s p = (take (length p) s = p)"

fun split_on :: "char \<Rightarrow> string \<Rightarrow> string list" where
  \<comment> \<open>\<open>s.split(c)\<close> for a one-character separator; the empty string gives one empty piece\<close>
  "split_on c [] = [[]]"
| "split_on c (x # xs) =
     (if x = c then [] # split_on c xs
      else (case split_on c xs of
              [] \<Rightarrow> [[x]]
            | l # ls \<Rightarrow> (x # l) # ls))"

fun replace_first :: "string \<Rightarrow> string \<Rightarrow> string \<Rightarrow> string" where
  \<comment> \<open>\<open>s.replace(pat, rep)\<close> with a string pattern: only the first occurrence is replaced\<close>
  "replace_first pat rep [] = (if pat = [] then rep else [])"
| "replace_first pat rep (x # xs) =
     (if startsWith (x # xs) pat then rep @ drop (length pat) (x # xs)
      else x # replace_first pat rep xs)"

fun join :: "string \<Rightarrow> string list \<Rightarrow> string" where
  \<comment> \<open>\<open>xs.join(sep)\<close>\<close>
  "join sep [] = []"
| "join sep [x] = x"
| "join sep (x # y # ys) = x @ sep @ join sep (y # ys)"

fun digits_of_nat :: "nat \<Rightarrow> string" where
  "digits_of_nat n =
     (if n < 10 then [char_of (48 + n)]
      else digits_of_nat (n div 10) @ [char_of (48 + n mod 10)])"

definition str_of_int :: "int \<Rightarrow> string" where
  \<comment> \<open>an integer-valued number inside a template literal (decimal digits, as JavaScript
      prints every integer of magnitude below \<open>10^21\<close>)\<close>
  "str_of_int i = (if i < 0 then CHR ''-'' # digits_of_nat (nat (- i)) else digits_of_nat (nat i))"

section \<open>Data model (types/pokemon.ts)\<close>

record Stats =
  hp :: int
  attack :: int
  defense :: int
  specialAttack :: int
  specialDefense :: int
  speed :: int
  total_stats :: int

record SimplifiedPokemon =
  pid :: int
  name :: string
  types :: "string list"
  stats :: Stats
  abilities :: "string list"
  height :: int
  weight :: int
  baseExperience :: int
  isLegendary :: bool
  isMythical :: bool
  description :: string
  generation :: string

record BattleResult =
  winner :: string
  loser :: string
  battleLog :: "string list"
  analysis :: string
  summary :: string

section \<open>GeminiService.parseBattleResult (services/gemini.ts)\<close>

text \<open>The local variables of the loop over the lines of the narrative.\<close>

record parse_state =
  ps_winner :: string
  ps_loser :: string
  ps_battleLog :: "string list"
  ps_analysis :: string
  ps_summary :: string
  currentSection :: string

definition parse_init :: parse_state where
  "parse_init = \<lparr>ps_winner = [], ps_loser = [], ps_battleLog = [], ps_analysis = [],
                  ps_summary = [], currentSection = []\<rparr>"

definition parse_line :: "SimplifiedPokemon \<Rightarrow> SimplifiedPokemon \<Rightarrow> parse_state \<Rightarrow> string \<Rightarrow> parse_state" where
  \<comment> \<open>one iteration of \<open>for (const line of lines)\<close>\<close>
  "parse_line pokemon1 pokemon2 st line =
     (let trimmedLine = trim line in
      if startsWith trimmedLine ''**WINNER:**'' then
        (let w = trim (replace_first ''**WINNER:**'' [] trimmedLine)
         in st\<lparr>currentSection := ''winner'',
                ps_winner := w,
                ps_loser := (if toLowerCase w = toLowerCase (name pokemon1)
                             then name pokemon2 else name pokemon1)\<rparr>)
      else if startsWith trimmedLine ''**BATTLE LOG:**'' then st\<lparr>currentSection := ''battleLog''\<rparr>
      else if startsWith trimmedLine ''**STRATEGIC ANALYSIS:**'' then st\<lparr>currentSection := ''analysis''\<rparr>
      else if startsWith trimmedLine ''**SUMMARY:**'' then st\<lparr>currentSection := ''summary''\<rparr>
      else if trimmedLine \<noteq> [] \<and> \<not> startsWith trimmedLine ''**'' then
        (if currentSection st = ''battleLog'' then
           st\<lparr>ps_battleLog := ps_battleLog st @ [trimmedLine]\<rparr>
         else if currentSection st = ''analysis'' then
           st\<lparr>ps_analysis := ps_analysis st @ (if ps_analysis st \<noteq> [] then '' '' else []) @ trimmedLine\<rparr>
         else if currentSection st = ''summary'' then
           st\<lparr>ps_summary := ps_summary st @ (if ps_summary st \<noteq> [] then '' '' else []) @ trimmedLine\<rparr>
         else st)
      else st)"

definition parse_lines :: "SimplifiedPokemon \<Rightarrow> SimplifiedPokemon \<Rightarrow> parse_state \<Rightarrow> string list \<Rightarrow> parse_state" where
  "parse_lines pokemon1 pokemon2 st ls = foldl (parse_line pokemon1 pokemon2) st ls"

definition finish_parse :: "string \<Rightarrow> SimplifiedPokemon \<Rightarrow> SimplifiedPokemon \<Rightarrow> parse_state \<Rightarrow> BattleResult" where
  \<comment> \<open>the field-level fallbacks after the loop\<close>
  "finish_parse battleNarrative pokemon1 pokemon2 st =
     (let w = (if ps_winner st = []
               then (if total_stats (stats pokemon1) > total_stats (stats pokemon2)
                     then name pokemon1 else name pokemon2)
               else ps_winner st);
          l = (if ps_winner st = []
               then (if w = name pokemon1 then name pokemon2 else name pokemon1)
               else ps_loser st)
      in \<lparr>winner = w,
          loser = l,
          battleLog = (if length (ps_battleLog st) = 0 then [battleNarrative] else ps_battleLog st),
          analysis = (if ps_analysis st = []
                      then ''Statistical analysis determined the outcome based on overall battle capability.''
                      else ps_analysis st),
          summary = (if ps_summary st = []
                     then w @ '' emerged victorious in this Pokemon battle.''
                     else ps_summary st)\<rparr>)"

definition parseBattleResult :: "string \<Rightarrow> SimplifiedPokemon \<Rightarrow> SimplifiedPokemon \<Rightarrow> BattleResult" where
  "parseBattleResult battleNarrative pokemon1 pokemon2 =
     finish_parse battleNarrative pokemon1 pokemon2
       (parse_lines pokemon1 pokemon2 parse_init (split_on CHR 0x0A battleNarrative))"

section \<open>GeminiService.simulateBattle (services/gemini.ts)\<close>

text \<open>
  A value thrown by the generative-model call: its \<open>message\<close> and the name of its
  constructor, the two things the \<open>catch\<close> block reads.
\<close>

record js_error =
  err_message :: string
  err_constructor :: string

definition simulateBattle ::
  "SimplifiedPokemon \<Rightarrow> SimplifiedPokemon \<Rightarrow> js_error + string \<Rightarrow> string + BattleResult" where
  \<comment> \<open>the third argument is what \<open>generateContent\<close> and \<open>response.text()\<close> give:
      a thrown value or the narrative; \<open>Inl\<close> of the result is the message of the rethrown Error\<close>
  "simulateBattle pokemon1 pokemon2 generated =
     (case generated of
        Inr battleNarrative \<Rightarrow> Inr (parseBattleResult battleNarrative pokemon1 pokemon2)
      | Inl err \<Rightarrow>
          Inl (''Gemini API failed: '' @ err_message err @ '' ('' @
               (if err_constructor err = [] then ''Unknown'' else err_constructor err) @ '')''))"

section \<open>POST /api/battle (server.js)\<close>

record gemini_error_info =
  occurred :: bool
  ge_message :: string
  fallbackUsed :: bool

record battle_outcome = BattleResult +
  geminiError :: "gemini_error_info option"

record response_metadata =
  timestamp_iso :: string
  usingFallback :: bool
  md_pokemon1 :: string
  md_pokemon2 :: string
  serverStatus :: string

record battle_response = battle_outcome +
  metadata :: response_metadata

datatype http_response =
    Status200 battle_response
  | Status400 string
  | Status500 string string

definition first_type :: "SimplifiedPokemon \<Rightarrow> string" where
  \<comment> \<open>\<open>${winnerData.types[0]}\<close>: an empty list reads \<open>undefined\<close>\<close>
  "first_type p = (case types p of [] \<Rightarrow> ''undefined'' | t # _ \<Rightarrow> t)"

definition fallback_outcome :: "SimplifiedPokemon \<Rightarrow> SimplifiedPokemon \<Rightarrow> string \<Rightarrow> battle_outcome" where
  \<comment> \<open>the body of \<open>catch (geminiError)\<close>; the third argument is \<open>geminiError.message\<close>\<close>
  "fallback_outcome completeData1 completeData2 msg =
     (let w = (if total_stats (stats completeData1) > total_stats (stats completeData2)
               then name completeData1 else name completeData2);
          l = (if w = name completeData1 then name completeData2 else name completeData1);
          winnerData = (if w = name completeData1 then completeData1 else completeData2);
          loserData = (if w = name completeData1 then completeData2 else completeData1)
      in \<lparr>winner = w,
          loser = l,
          battleLog =
            [name completeData1 @ '' enters the battlefield with '' @ str_of_int (hp (stats completeData1)) @ '' HP!'',
             name completeData2 @ '' prepares for battle with '' @ str_of_int (speed (stats completeData2)) @ '' speed!'',
             w @ '' used '' @ first_type winnerData @ ''-type attack!'',
             l @ '' counters with a defensive move!'',
             w @ '' lands a critical hit with superior stats!'',
             l @ '' is defeated! '' @ w @ '' emerges victorious!''],
          analysis =
            w @ '' won due to superior total stats ('' @ str_of_int (total_stats (stats winnerData)) @ '' vs '' @
            str_of_int (total_stats (stats loserData)) @ ''). Key advantages: '' @
            (if attack (stats winnerData) > attack (stats loserData) then ''Higher Attack'' else []) @ '' '' @
            (if speed (stats winnerData) > speed (stats loserData) then ''Faster Speed'' else []) @ '' '' @
            (if hp (stats winnerData) > hp (stats loserData) then ''More HP'' else []) @
            ''. Type advantage: '' @ join ''/'' (types winnerData) @ '' vs '' @ join ''/'' (types loserData) @ ''.'',
          summary = w @ '' dominated this Pokemon battle through statistical superiority and strategic type advantages.'',
          geminiError = Some \<lparr>occurred = True, ge_message = msg, fallbackUsed = True\<rparr>\<rparr>)"

definition with_metadata :: "battle_outcome \<Rightarrow> response_metadata \<Rightarrow> battle_response" where
  \<comment> \<open>\<open>{...battleResult, metadata: {...}}\<close>\<close>
  "with_metadata r m =
     \<lparr>winner = winner r, loser = loser r, battleLog = battleLog r, analysis = analysis r,
      summary = summary r, geminiError = geminiError r, metadata = m\<rparr>"

definition battle_handler ::
  "bool \<Rightarrow> string option \<Rightarrow> string option \<Rightarrow> string + SimplifiedPokemon \<Rightarrow> string + SimplifiedPokemon
   \<Rightarrow> js_error + string \<Rightarrow> string \<Rightarrow> http_response" where
  \<comment> \<open>arguments: both services initialised; the names of \<open>req.body.pokemon1\<close> and
      \<open>req.body.pokemon2\<close> when present; what the two \<open>getCompletePokemonData\<close> calls give
      (\<open>Inl\<close> an error message); what the model call gives; the time stamp\<close>
  "battle_handler ready pokemon1 pokemon2 fetched1 fetched2 generated now_iso =
     (if \<not> ready then Status500 ''Services not initialized'' []
      else if pokemon1 = None \<or> pokemon2 = None then Status400 ''Both Pokemon are required''
      else
        (case fetched1 of
           Inl e \<Rightarrow> Status500 ''Battle simulation failed'' e
         | Inr completeData1 \<Rightarrow>
             (case fetched2 of
                Inl e \<Rightarrow> Status500 ''Battle simulation failed'' e
              | Inr completeData2 \<Rightarrow>
                  (let (battleResult, fallback) =
                         (case simulateBattle completeData1 completeData2 generated of
                            Inr r \<Rightarrow>
                              (\<lparr>winner = winner r, loser = loser r, battleLog = battleLog r,
                                analysis = analysis r, summary = summary r, geminiError = None\<rparr>, False)
                          | Inl msg \<Rightarrow> (fallback_outcome completeData1 completeData2 msg, True))
                   in Status200 (with_metadata battleResult
                        \<lparr>timestamp_iso = now_iso, usingFallback = fallback,
                         md_pokemon1 = name completeData1, md_pokemon2 = name completeData2,
                         serverStatus = ''success''\<rparr>)))))"

section \<open>Helpers (utils/helpers.ts)\<close>

definition is_digit :: "char \<Rightarrow> bool" where
  "is_digit c = (CHR ''0'' \<le> c \<and> c \<le> CHR ''9'')"

definition is_lower :: "char \<Rightarrow> bool" where
  "is_lower c = (CHR ''a'' \<le> c \<and> c \<le> CHR ''z'')"

definition all_digits :: "string \<Rightarrow> bool" where
  \<comment> \<open>DecimalDigits: one digit or more\<close>
  "all_digits s = (s \<noteq> [] \<and> list_all is_digit s)"

definition signed_integer :: "string \<Rightarrow> bool" where
  "signed_integer s =
     (case s of
        c # r \<Rightarrow> if c = CHR ''+'' \<or> c = CHR ''-'' then all_digits r else all_digits s
      | [] \<Rightarrow> False)"

definition exponent_opt :: "string \<Rightarrow> bool" where
  \<comment> \<open>an optional ExponentPart, up to the end of the string\<close>
  "exponent_opt s =
     (case s of
        [] \<Rightarrow> True
      | c # r \<Rightarrow> (c = CHR ''e'' \<or> c = CHR ''E'') \<and> signed_integer r)"

definition str_unsigned_decimal :: "string \<Rightarrow> bool" where
  \<comment> \<open>StrUnsignedDecimalLiteral of the StringNumericLiteral grammar\<close>
  "str_unsigned_decimal s =
     (s = ''Infinity'' \<or>
      (let ds = takeWhile is_digit s; r = dropWhile is_digit s in
       if ds \<noteq> [] then
         (case r of
            c # r' \<Rightarrow> if c = CHR ''.'' then exponent_opt (dropWhile is_digit r') else exponent_opt r
          | [] \<Rightarrow> True)
       else
         (case r of
            c # r' \<Rightarrow> c = CHR ''.'' \<and> takeWhile is_digit r' \<noteq> [] \<and> exponent_opt (dropWhile is_digit r')
          | [] \<Rightarrow> False)))"

definition str_decimal :: "string \<Rightarrow> bool" where
  \<comment> \<open>StrDecimalLiteral: an optional sign, then StrUnsignedDecimalLiteral\<close>
  "str_decimal s =
     (case s of
        c # r \<Rightarrow> if c = CHR ''+'' \<or> c = CHR ''-'' then str_unsigned_decimal r else str_unsigned_decimal s
      | [] \<Rightarrow> False)"

definition is_hex_digit :: "char \<Rightarrow> bool" where
  "is_hex_digit c = (is_digit c \<or> (CHR ''a'' \<le> c \<and> c \<le> CHR ''f'') \<or> (CHR ''A'' \<le> c \<and> c \<le> CHR ''F''))"

definition is_octal_digit :: "char \<Rightarrow> bool" where
  "is_octal_digit c = (CHR ''0'' \<le> c \<and> c \<le> CHR ''7'')"

definition is_binary_digit :: "char \<Rightarrow> bool" where
  "is_binary_digit c = (c = CHR ''0'' \<or> c = CHR ''1'')"

definition non_decimal_integer :: "string \<Rightarrow> bool" where
  \<comment> \<open>NonDecimalIntegerLiteral: 0x, 0o or 0b (either case) and one digit or more\<close>
  "non_decimal_integer s =
     (case s of
        z # c # r \<Rightarrow>
          z = CHR ''0'' \<and> r \<noteq> [] \<and>
          (((c = CHR ''x'' \<or> c = CHR ''X'') \<and> list_all is_hex_digit r) \<or>
           ((c = CHR ''o'' \<or> c = CHR ''O'') \<and> list_all is_octal_digit r) \<or>
           ((c = CHR ''b'' \<or> c = CHR ''B'') \<and> list_all is_binary_digit r))
      | _ \<Rightarrow> False)"

definition Number_isNaN :: "string \<Rightarrow> bool" where
  \<comment> \<open>\<open>isNaN(Number(str))\<close>: the string, its white space trimmed, is neither empty nor
      a StrNumericLiteral\<close>
  "Number_isNaN str =
     (let t = trim str in \<not> (t = [] \<or> str_decimal t \<or> non_decimal_integer t))"

definition parseFloat_isNaN :: "string \<Rightarrow> bool" where
  \<comment> \<open>\<open>isNaN(parseFloat(str))\<close>: after the leading white space, no prefix is a StrDecimalLiteral\<close>
  "parseFloat_isNaN str =
     (let t = dropWhile js_space str;
          u = (case t of c # r \<Rightarrow> if c = CHR ''+'' \<or> c = CHR ''-'' then r else t | [] \<Rightarrow> t)
      in \<not> (startsWith u ''Infinity'' \<or>
             (case u of
                c # r \<Rightarrow> is_digit c \<or> (c = CHR ''.'' \<and> (case r of d # _ \<Rightarrow> is_digit d | [] \<Rightarrow> False))
              | [] \<Rightarrow> False)))"

definition isNumeric :: "string \<Rightarrow> bool" where
  "isNumeric str = (\<not> Number_isNaN str \<and> \<not> parseFloat_isNaN str)"

definition sanitize_char :: "char \<Rightarrow> bool" where
  \<comment> \<open>the characters that \<open>/[^a-z0-9\-]/g\<close> keeps\<close>
  "sanitize_char c = (is_lower c \<or> is_digit c \<or> c = CHR ''-'')"

definition sanitizeInput :: "string \<Rightarrow> string" where
  "sanitizeInput input = filter sanitize_char (toLowerCase (trim input))"

definition letters_hyphens :: "string \<Rightarrow> bool" where
  \<comment> \<open>\<open>/^[a-z\-]+$/.test(s)\<close>\<close>
  "letters_hyphens s = (s \<noteq> [] \<and> list_all (\<lambda>c. is_lower c \<or> c = CHR ''-'') s)"

record validation =
  isValid :: bool
  sanitized :: string

definition validatePokemonIdentifier :: "string \<Rightarrow> validation" where
  "validatePokemonIdentifier identifier =
     (let s = sanitizeInput identifier
      in \<lparr>isValid = (length s > 0 \<and> (isNumeric s \<or> letters_hyphens s)), sanitized = s\<rparr>)"

definition handleError :: "string \<Rightarrow> string \<Rightarrow> string" where
  \<comment> \<open>the message of the Error that \<open>handleError(error, context)\<close> returns for an Error\<close>
  "handleError msg context = context @ '': '' @ msg"

section \<open>PokemonTools (tools/pokemon-tools.ts)\<close>

text \<open>
  The text payload of a tool result.  The two formatters of the class are kept symbolic:
  \<open>BattleReport r p1 p2\<close> stands for the text \<open>formatBattleResult(r, p1, p2)\<close> and
  \<open>ListReport names count offset\<close> for \<open>formatPokemonList(list, offset)\<close>.
\<close>

datatype number_arg = NaN | NegInfinity | Finite real | PosInfinity

datatype tool_text =
    PlainText string
  | BattleReport BattleResult SimplifiedPokemon SimplifiedPokemon
  | ListReport "string list" int number_arg

record CallToolResult =
  content :: tool_text
  isError :: bool

definition battleSimulation ::
  "string \<Rightarrow> string \<Rightarrow> (string \<Rightarrow> string + SimplifiedPokemon) \<Rightarrow> js_error + string \<Rightarrow> CallToolResult" where
  \<comment> \<open>arguments: \<open>args.pokemon1\<close>, \<open>args.pokemon2\<close>; the data client's
      \<open>getCompletePokemonData\<close> (\<open>Inl\<close> the message of its Error); what the model call gives\<close>
  "battleSimulation arg1 arg2 getCompletePokemonData generated =
     (let validation1 = validatePokemonIdentifier arg1;
          validation2 = validatePokemonIdentifier arg2
      in if \<not> isValid validation1 \<or> \<not> isValid validation2 then
           \<lparr>content = PlainText ''Invalid Pokemon identifiers. Please provide valid Pokemon names or Pokedex numbers.'',
            isError = True\<rparr>
         else
           (case getCompletePokemonData (sanitized validation1) of
              Inl e \<Rightarrow>
                \<lparr>content = PlainText (''Error simulating battle: '' @ handleError e ''battleSimulation''),
                 isError = True\<rparr>
            | Inr pokemon1 \<Rightarrow>
                (case getCompletePokemonData (sanitized validation2) of
                   Inl e \<Rightarrow>
                     \<lparr>content = PlainText (''Error simulating battle: '' @ handleError e ''battleSimulation''),
                      isError = True\<rparr>
                 | Inr pokemon2 \<Rightarrow>
                     (case simulateBattle pokemon1 pokemon2 generated of
                        Inl e \<Rightarrow>
                          \<lparr>content = PlainText (''Error simulating battle: '' @ handleError e ''battleSimulation''),
                           isError = True\<rparr>
                      | Inr battleResult \<Rightarrow>
                          \<lparr>content = BattleReport battleResult pokemon1 pokemon2, isError = False\<rparr>))))"

text \<open>
  \<^typ>\<open>number_arg\<close> is a JavaScript number: NaN, the two infinities, or a finite value.
  \<open>Math.min\<close> and the truth value of a number are exact on doubles, so a finite double
  is its real value.
\<close>

definition truthy :: "number_arg \<Rightarrow> bool" where
  "truthy x = (case x of NaN \<Rightarrow> False | Finite r \<Rightarrow> r \<noteq> 0 | _ \<Rightarrow> True)"

definition or_default :: "number_arg option \<Rightarrow> number_arg \<Rightarrow> number_arg" where
  \<comment> \<open>\<open>x || d\<close> for an optional number: \<open>undefined\<close>, 0 and NaN give the default\<close>
  "or_default x d = (case x of None \<Rightarrow> d | Some v \<Rightarrow> if truthy v then v else d)"

fun Math_min :: "number_arg \<Rightarrow> number_arg \<Rightarrow> number_arg" where
  "Math_min NaN _ = NaN"
| "Math_min _ NaN = NaN"
| "Math_min NegInfinity _ = NegInfinity"
| "Math_min _ NegInfinity = NegInfinity"
| "Math_min PosInfinity y = y"
| "Math_min x PosInfinity = x"
| "Math_min (Finite a) (Finite b) = Finite (min a b)"

record list_args =
  limit :: "number_arg option"
  offset :: "number_arg option"

record PokemonList =
  list_count :: int
  results :: "string list"

definition list_limit :: "list_args \<Rightarrow> number_arg" where
  \<comment> \<open>\<open>const limit = Math.min(args.limit || 20, 100)\<close>\<close>
  "list_limit args = Math_min (or_default (limit args) (Finite 20)) (Finite 100)"

definition list_offset :: "list_args \<Rightarrow> number_arg" where
  \<comment> \<open>\<open>const offset = args.offset || 0\<close>\<close>
  "list_offset args = or_default (offset args) (Finite 0)"

definition getPokemonList ::
  "list_args \<Rightarrow> (number_arg \<Rightarrow> number_arg \<Rightarrow> string + PokemonList) \<Rightarrow> CallToolResult" where
  \<comment> \<open>the second argument is the data client's \<open>getPokemonList(limit, offset)\<close>\<close>
  "getPokemonList args client =
     (let lim = list_limit args;
          off = list_offset args
      in case client lim off of
           Inr pokemonList \<Rightarrow>
             \<lparr>content = ListReport (results pokemonList) (list_count pokemonList) off, isError = False\<rparr>
         | Inl e \<Rightarrow>
             \<lparr>content = PlainText (''Error retrieving Pokemon list: '' @ handleError e ''getPokemonList''),
              isError = True\<rparr>)"

section \<open>PokeApiService (services/pokeapi.ts)\<close>

subsection \<open>The cache\<close>

record 'a cache_entry =
  data :: 'a
  timestamp :: int

record 'a api_state =
  cache :: "string \<rightharpoonup> 'a cache_entry"
  requests :: "string list"  \<comment> \<open>the endpoints of the GET requests issued so far\<close>

definition CACHE_TTL :: int where
  "CACHE_TTL = 1000 * 60 * 30"

definition isValidCache :: "int \<Rightarrow> 'a cache_entry \<Rightarrow> bool" where
  \<comment> \<open>the first argument is \<open>Date.now()\<close>\<close>
  "isValidCache now cacheEntry = (now - timestamp cacheEntry < CACHE_TTL)"

definition fetchWithCache ::
  "string \<Rightarrow> int \<Rightarrow> string + 'a \<Rightarrow> int \<Rightarrow> 'a api_state \<Rightarrow> (string + 'a) \<times> 'a api_state" where
  \<comment> \<open>arguments: the endpoint; \<open>Date.now()\<close> at the validity check; what \<open>api.get(endpoint)\<close>
      gives if it is issued (\<open>Inl\<close> the message of its Error); \<open>Date.now()\<close> when the
      response is stored; the state before\<close>
  "fetchWithCache endpoint now remote stored_at st =
     (case cache st endpoint of
        Some cached \<Rightarrow>
          if isValidCache now cached then (Inr (data cached), st)
          else
            (case remote of
               Inr d \<Rightarrow>
                 (Inr d, st\<lparr>cache := (cache st)(endpoint \<mapsto> \<lparr>data = d, timestamp = stored_at\<rparr>),
                            requests := requests st @ [endpoint]\<rparr>)
             | Inl e \<Rightarrow>
                 (Inl (''Failed to fetch '' @ endpoint @ '': '' @ e),
                  st\<lparr>requests := requests st @ [endpoint]\<rparr>))
      | None \<Rightarrow>
          (case remote of
             Inr d \<Rightarrow>
               (Inr d, st\<lparr>cache := (cache st)(endpoint \<mapsto> \<lparr>data = d, timestamp = stored_at\<rparr>),
                          requests := requests st @ [endpoint]\<rparr>)
           | Inl e \<Rightarrow>
               (Inl (''Failed to fetch '' @ endpoint @ '': '' @ e),
                st\<lparr>requests := requests st @ [endpoint]\<rparr>)))"

subsection \<open>transformToSimplifiedPokemon\<close>

record PokemonStat =
  base_stat :: int
  effort :: int
  stat_name :: string

record PokemonType =
  type_slot :: int
  type_name :: string

record PokemonAbility =
  is_hidden :: bool
  ability_slot :: int
  ability_name :: string

record Pokemon =
  p_id :: int
  p_name :: string
  base_experience :: int
  p_height :: int
  p_weight :: int
  p_abilities :: "PokemonAbility list"
  p_stats :: "PokemonStat list"
  p_types :: "PokemonType list"

record FlavorTextEntry =
  flavor_text :: string
  language_name :: string

record PokemonSpecies =
  is_legendary :: bool
  is_mythical :: bool
  flavor_text_entries :: "FlavorTextEntry list"
  generation_name :: string

definition extract_stat :: "PokemonStat list \<Rightarrow> string \<Rightarrow> int" where
  \<comment> \<open>\<open>stats.find(s => s.stat.name === n)?.base_stat || 0\<close>\<close>
  "extract_stat ss n =
     (case find (\<lambda>s. stat_name s = n) ss of
        None \<Rightarrow> 0
      | Some s \<Rightarrow> if base_stat s = 0 then 0 else base_stat s)"

function collapse_spaces :: "string \<Rightarrow> string" where
  \<comment> \<open>\<open>.replace(/\s+/g, ' ')\<close>\<close>
  "collapse_spaces [] = []"
| "collapse_spaces (c # cs) =
     (if js_space c then CHR '' '' # collapse_spaces (dropWhile js_space cs)
      else c # collapse_spaces cs)"
  by pat_completeness auto
termination
  by (relation "measure length") (auto simp: less_Suc_eq_le length_dropWhile_le)

definition clean_flavor_text :: "string \<Rightarrow> string" where
  "clean_flavor_text t =
     trim (collapse_spaces
       (map (\<lambda>c. if c = CHR 0x0A then CHR '' '' else c)
         (map (\<lambda>c. if c = CHR 0x0C then CHR '' '' else c) t)))"

definition transformToSimplifiedPokemon :: "Pokemon \<Rightarrow> PokemonSpecies \<Rightarrow> SimplifiedPokemon" where
  "transformToSimplifiedPokemon pokemon species =
     (let h = extract_stat (p_stats pokemon) ''hp'';
          a = extract_stat (p_stats pokemon) ''attack'';
          d = extract_stat (p_stats pokemon) ''defense'';
          sa = extract_stat (p_stats pokemon) ''special-attack'';
          sd = extract_stat (p_stats pokemon) ''special-defense'';
          sp = extract_stat (p_stats pokemon) ''speed'';
          englishFlavorText =
            (case find (\<lambda>entry. language_name entry = ''en'') (flavor_text_entries species) of
               None \<Rightarrow> ''No description available.''
             | Some entry \<Rightarrow>
                 (let t = clean_flavor_text (flavor_text entry)
                  in if t = [] then ''No description available.'' else t))
      in \<lparr>pid = p_id pokemon,
          name = p_name pokemon,
          types = map type_name (sort_key type_slot (p_types pokemon)),
          stats = \<lparr>hp = h, attack = a, defense = d, specialAttack = sa, specialDefense = sd,
                   speed = sp, total_stats = h + a + d + sa + sd + sp\<rparr>,
          abilities = map ability_name (sort_key ability_slot (p_abilities pokemon)),
          height = p_height pokemon,
          weight = p_weight pokemon,
          baseExperience = base_experience pokemon,
          isLegendary = is_legendary species,
          isMythical = is_mythical species,
          description = englishFlavorText,
          generation = generation_name species\<rparr>)"

definition getCompletePokemonData ::
  "string \<Rightarrow> string + Pokemon \<Rightarrow> string + PokemonSpecies \<Rightarrow> string + SimplifiedPokemon" where
  \<comment> \<open>the second and third arguments are what \<open>getPokemon\<close> and \<open>getPokemonSpecies\<close> give\<close>
  "getCompletePokemonData identifier fetched_pokemon fetched_species =
     (case fetched_pokemon of
        Inl e \<Rightarrow> Inl (''Failed to get complete Pokemon data for '' @ identifier @ '': '' @ e)
      | Inr pokemon \<Rightarrow>
          (case fetched_species of
             Inl e \<Rightarrow> Inl (''Failed to get complete Pokemon data for '' @ identifier @ '': '' @ e)
           | Inr species \<Rightarrow> Inr (transformToSimplifiedPokemon pokemon species)))"

section \<open>Narratives made of sections\<close>

text \<open>
  A narrative in the words of the specification: labelled sections, each a heading line
  followed by the lines of its content.
\<close>

datatype section_kind = Winner | BattleLog | Analysis | Summary

type_synonym block = "section_kind \<times> string \<times> string list"

fun heading :: "section_kind \<Rightarrow> string" where
  "heading Winner = ''**WINNER:**''"
| "heading BattleLog = ''**BATTLE LOG:**''"
| "heading Analysis = ''**STRATEGIC ANALYSIS:**''"
| "heading Summary = ''**SUMMARY:**''"

definition declared_name :: "string \<Rightarrow> string" where
  \<comment> \<open>the rest of a WINNER heading line after the heading, trimmed\<close>
  "declared_name h = trim (drop (length ''**WINNER:**'') (trim h))"

definition content_lines :: "string list \<Rightarrow> string list" where
  \<comment> \<open>the lines of a section, trimmed, one entry per non-empty line\<close>
  "content_lines ls = filter (\<lambda>l. l \<noteq> []) (map trim ls)"

definition plain_line :: "string \<Rightarrow> bool" where
  \<comment> \<open>a line that, trimmed, does not start with the marker \<open>**\<close>\<close>
  "plain_line l = (\<not> startsWith (trim l) ''**'')"

fun block_lines :: "block \<Rightarrow> string list" where
  "block_lines (k, h, ls) = h # ls"

text \<open>
  The WINNER heading carries the name on its own line; the other headings stand alone on
  their line.
\<close>

fun heading_ok :: "section_kind \<Rightarrow> string \<Rightarrow> bool" where
  "heading_ok Winner h = startsWith (trim h) ''**WINNER:**''"
| "heading_ok k h = (trim h = heading k)"

fun well_formed_block :: "block \<Rightarrow> bool" where
  "well_formed_block (k, h, ls) =
     (heading_ok k h \<and> list_all plain_line ls \<and>
      (if k = Winner then declared_name h \<noteq> [] else content_lines ls \<noteq> []))"

text \<open>
  For the proofs: the accumulation \<open>a += (a ? ' ' : '') + line\<close> over a list of lines, and
  what one well-formed block does to the variables of the loop.
\<close>

definition acc_join :: "string \<Rightarrow> string list \<Rightarrow> string" where
  "acc_join a ls = foldl (\<lambda>a l. a @ (if a \<noteq> [] then '' '' else []) @ l) a ls"

fun block_effect :: "SimplifiedPokemon \<Rightarrow> SimplifiedPokemon \<Rightarrow> parse_state \<Rightarrow> block \<Rightarrow> parse_state" where
  "block_effect p1 p2 st (Winner, h, ls) =
     st\<lparr>currentSection := ''winner'', ps_winner := declared_name h,
        ps_loser := (if toLowerCase (declared_name h) = toLowerCase (name p1) then name p2 else name p1)\<rparr>"
| "block_effect p1 p2 st (BattleLog, h, ls) =
     st\<lparr>currentSection := ''battleLog'', ps_battleLog := ps_battleLog st @ content_lines ls\<rparr>"
| "block_effect p1 p2 st (Analysis, h, ls) =
     st\<lparr>currentSection := ''analysis'', ps_analysis := acc_join (ps_analysis st) (content_lines ls)\<rparr>"
| "block_effect p1 p2 st (Summary, h, ls) =
     st\<lparr>currentSection := ''summary'', ps_summary := acc_join (ps_summary st) (content_lines ls)\<rparr>"

section \<open>Identifier shapes, in the words of the specification\<close>

definition fully_numeric :: "string \<Rightarrow> bool" where
  \<comment> \<open>"fully numeric": one digit or more and nothing else\<close>
  "fully_numeric s = (s \<noteq> [] \<and> list_all is_digit s)"

definition claimed_valid :: "string \<Rightarrow> bool" where
  \<comment> \<open>the acceptance rule as the specification words it\<close>
  "claimed_valid identifier =
     (let s = sanitizeInput identifier in s \<noteq> [] \<and> (fully_numeric s \<or> letters_hyphens s))"

definition unsigned_form :: "string \<Rightarrow> bool" where
  \<comment> \<open>digits, or digits, \<open>e\<close>, an optional minus sign, digits\<close>
  "unsigned_form u =
     (\<exists>ds. all_digits ds \<and>
        (u = ds \<or>
         (\<exists>esg es. u = ds @ ''e'' @ esg @ es \<and> (esg = [] \<or> esg = ''-'') \<and> all_digits es)))"

definition decimal_form :: "string \<Rightarrow> bool" where
  \<comment> \<open>an unsigned form, or a minus sign before one\<close>
  "decimal_form s = (unsigned_form s \<or> (\<exists>u. s = CHR ''-'' # u \<and> unsigned_form u))"

definition radix_form :: "string \<Rightarrow> bool" where
  \<comment> \<open>\<open>0x\<close>, \<open>0o\<close> or \<open>0b\<close> before one digit or more of that base\<close>
  "radix_form s =
     (\<exists>ds. ds \<noteq> [] \<and>
        ((s = ''0x'' @ ds \<and> list_all is_hex_digit ds) \<or>
         (s = ''0o'' @ ds \<and> list_all is_octal_digit ds) \<or>
         (s = ''0b'' @ ds \<and> list_all is_binary_digit ds)))"

section \<open>Example inputs\<close>



definition pikachu :: SimplifiedPokemon where
  "pikachu =
     \<lparr>pid = 25, name = ''pikachu'', types = [''electric''],
      stats = \<lparr>hp = 35, attack = 55, defense = 40, specialAttack = 50, specialDefense = 50,
               speed = 90, total_stats = 320\<rparr>,
      abilities = [''static'', ''lightning-rod''], height = 4, weight = 60, baseExperience = 112,
      isLegendary = False, isMythical = False,
      description = ''It keeps its tail raised to monitor its surroundings.'',
      generation = ''generation-i''\<rparr>"

definition onix :: SimplifiedPokemon where
  "onix =
     \<lparr>pid = 95, name = ''onix'', types = [''rock'', ''ground''],
      stats = \<lparr>hp = 35, attack = 45, defense = 160, specialAttack = 30, specialDefense = 45,
               speed = 70, total_stats = 385\<rparr>,
      abilities = [''rock-head'', ''sturdy'', ''weak-armor''], height = 88, weight = 2100,
      baseExperience = 77, isLegendary = False, isMythical = False,
      description = ''It burrows through the ground at a speed of 50 mph.'',
      generation = ''generation-i''\<rparr>"

definition example_client :: "string \<Rightarrow> string + SimplifiedPokemon" where
  \<comment> \<open>a data client that knows two creatures\<close>
  "example_client n =
     (if n = ''pikachu'' then Inr pikachu
      else if n = ''onix'' then Inr onix
      else Inl (''Failed to get complete Pokemon data for '' @ n @ '': Failed to fetch /pokemon/'' @ n @
                '': PokeAPI Error: 404 - Not Found''))"

definition quota_error :: js_error where
  "quota_error = \<lparr>err_message = ''quota exceeded'', err_constructor = ''Error''\<rparr>"

definition LF :: string where
  \<comment> \<open>the line separator, as a string\<close>
  "LF = [CHR 0x0A]"

definition raw_without_speed :: Pokemon where
  \<comment> \<open>a raw record whose stats list has no \<open>speed\<close> and no \<open>special-defense\<close> entry\<close>
  "raw_without_speed =
     \<lparr>p_id = 25, p_name = ''pikachu'', base_experience = 112, p_height = 4, p_weight = 60,
      p_abilities = [\<lparr>is_hidden = True, ability_slot = 3, ability_name = ''lightning-rod''\<rparr>,
                     \<lparr>is_hidden = False, ability_slot = 1, ability_name = ''static''\<rparr>],
      p_stats = [\<lparr>base_stat = 35, effort = 0, stat_name = ''hp''\<rparr>,
                 \<lparr>base_stat = 55, effort = 0, stat_name = ''attack''\<rparr>,
                 \<lparr>base_stat = 40, effort = 0, stat_name = ''defense''\<rparr>,
                 \<lparr>base_stat = 50, effort = 0, stat_name = ''special-attack''\<rparr>],
      p_types = [\<lparr>type_slot = 1, type_name = ''electric''\<rparr>]\<rparr>"

definition raw_duplicates :: Pokemon where
  \<comment> \<open>a raw record that names one type in two slots and one ability in two slots\<close>
  "raw_duplicates =
     \<lparr>p_id = 6, p_name = ''charizard'', base_experience = 267, p_height = 17, p_weight = 905,
      p_abilities = [\<lparr>is_hidden = True, ability_slot = 3, ability_name = ''blaze''\<rparr>,
                     \<lparr>is_hidden = False, ability_slot = 1, ability_name = ''blaze''\<rparr>],
      p_stats = [\<lparr>base_stat = 78, effort = 0, stat_name = ''hp''\<rparr>],
      p_types = [\<lparr>type_slot = 2, type_name = ''fire''\<rparr>,
                 \<lparr>type_slot = 1, type_name = ''fire''\<rparr>]\<rparr>"

definition species_example :: PokemonSpecies where
  "species_example =
     \<lparr>is_legendary = False, is_mythical = False,
      flavor_text_entries = [\<lparr>flavor_text = ''Spits fire that is hot enough to melt boulders.'',
                              language_name = ''en''\<rparr>],
      generation_name = ''generation-i''\<rparr>"

definition state_example :: "string api_state" where
  \<comment> \<open>a cache holding one entry, stored at time 1000\<close>
  "state_example =
     \<lparr>cache = [''/pokemon/pikachu'' \<mapsto> \<lparr>data = ''payload-1'', timestamp = 1000\<rparr>],
      requests = [''/pokemon/pikachu'']\<rparr>"

definition shuffled_blocks :: "block list" where
  "shuffled_blocks =
     [(BattleLog, ''**BATTLE LOG:**'',
        [''Turn 1: Pikachu used Thunderbolt!'', ''   Turn 2: Onix used Rock Throw!  '', []]),
      (Winner, '' **WINNER:**  Pikachu '', [[]]),
      (Summary, ''**SUMMARY:**'', [''Pikachu won.'', []]),
      (Analysis, ''**STRATEGIC ANALYSIS:**'', [''Speed decided it.'', ''Onix was too slow.''])]"

definition shuffled_narrative :: string where
  "shuffled_narrative = join LF (''Here is the battle.'' # concat (map block_lines shuffled_blocks))"

definition bold_blocks :: "block list" where
  "bold_blocks =
     [(Winner, ''**WINNER:** Pikachu'', []),
      (BattleLog, ''**BATTLE LOG:**'', [''**Turn 1:** Pikachu used Thunderbolt!'', ''Turn 2: Onix fainted!'']),
      (Analysis, ''**STRATEGIC ANALYSIS:**'', [''Speed decided it.'']),
      (Summary, ''**SUMMARY:**'', [''Pikachu won.''])]"

definition bold_narrative :: string where
  "bold_narrative = join LF (concat (map block_lines bold_blocks))"

definition empty_log_blocks :: "block list" where
  "empty_log_blocks =
     [(Winner, ''**WINNER:** Pikachu'', []),
      (BattleLog, ''**BATTLE LOG:**'', []),
      (Analysis, ''**STRATEGIC ANALYSIS:**'', [''Speed decided it.'']),
      (Summary, ''**SUMMARY:**'', [''Pikachu won.''])]"

definition empty_log_narrative :: string where
  "empty_log_narrative = join LF (concat (map block_lines empty_log_blocks))"

section \<open>The statistical fallback\<close>

lemma parse_line_keeps_winner:
  "\<not> startsWith (trim l) ''**WINNER:**'' \<Longrightarrow>
   ps_winner (parse_line p1 p2 st l) = ps_winner st \<and> ps_loser (parse_line p1 p2 st l) = ps_loser st"
  by (simp add: parse_line_def Let_def)

lemma parse_lines_Cons:
  "parse_lines p1 p2 st (l # ls) = parse_lines p1 p2 (parse_line p1 p2 st l) ls"
  by (simp add: parse_lines_def)

lemma parse_lines_append:
  "parse_lines p1 p2 st (xs @ ys) = parse_lines p1 p2 (parse_lines p1 p2 st xs) ys"
  by (simp add: parse_lines_def)

lemma parse_lines_keeps_winner:
  "\<forall>l \<in> set ls. \<not> startsWith (trim l) ''**WINNER:**'' \<Longrightarrow>
   ps_winner (parse_lines p1 p2 st ls) = ps_winner st \<and> ps_loser (parse_lines p1 p2 st ls) = ps_loser st"
proof (induction ls arbitrary: st)
  case Nil
  then show ?case by (simp add: parse_lines_def)
next
  case (Cons l ls)
  then show ?case by (simp add: parse_lines_Cons parse_line_keeps_winner)
qed




text \<open>
  C3, as the claim states it, fails: with the model call failing for Pikachu against
  Onix, the fallback battle log does not have five entries.
\<close>

theorem C3_log_length_counterexample:
  "length (battleLog (fallback_outcome pikachu onix ''network error'')) \<noteq> 5"
  by (simp add: fallback_outcome_def Let_def)

text \<open>
  C3, amended: whenever the model invocation fails after both fetches succeeded, POST
  /api/battle answers 200 with the statistical fallback outcome, tagged with the error
  and \<open>usingFallback = true\<close>, and its battle log contains exactly six entries: the two
  entrance lines and four lines of moves.
\<close>

theorem C3_fallback_log_has_six_entries:
  "\<exists>r. battle_handler True (Some n1) (Some n2) (Inr completeData1) (Inr completeData2) (Inl err) now_iso
          = Status200 r \<and>
        length (battleLog r) = 6 \<and>
        battleLog r = battleLog (fallback_outcome completeData1 completeData2
                        (''Gemini API failed: '' @ err_message err @ '' ('' @
                         (if err_constructor err = [] then ''Unknown'' else err_constructor err) @ '')'')) \<and>
        usingFallback (metadata r)"
  by (simp add: battle_handler_def simulateBattle_def with_metadata_def fallback_outcome_def Let_def)

theorem C3_fallback_log_has_six_entries_witness:
  "\<exists>r. battle_handler True (Some ''pikachu'') (Some ''onix'') (Inr pikachu) (Inr onix)
          (Inl \<lparr>err_message = ''network error'', err_constructor = ''Error''\<rparr>) ''2024-01-01T00:00:00.000Z''
          = Status200 r \<and>
        length (battleLog r) = 6 \<and> usingFallback (metadata r)"
  using C3_fallback_log_has_six_entries
    [of "''pikachu''" "''onix''" pikachu onix
        "\<lparr>err_message = ''network error'', err_constructor = ''Error''\<rparr>" "''2024-01-01T00:00:00.000Z''"]
  by blast

section \<open>A failing model call on the two boundary surfaces\<close>

lemma validate_pikachu:
  "validatePokemonIdentifier ''pikachu'' = \<lparr>isValid = True, sanitized = ''pikachu''\<rparr>"
  by code_simp

lemma validate_onix:
  "validatePokemonIdentifier ''onix'' = \<lparr>isValid = True, sanitized = ''onix''\<rparr>"
  by code_simp

text \<open>
  C2, as the claim states it, fails on the tool-invocation surface: with both creatures
  fetched and the model call throwing, \<open>battle_simulation\<close> returns an error-flagged
  payload carrying the error message, not a fallback outcome.
\<close>

theorem C2_tool_surface_counterexample:
  "isError (battleSimulation ''pikachu'' ''onix'' example_client (Inl quota_error)) \<and>
   content (battleSimulation ''pikachu'' ''onix'' example_client (Inl quota_error)) =
     PlainText ''Error simulating battle: battleSimulation: Gemini API failed: quota exceeded (Error)''"
  by code_simp

text \<open>
  C2, amended: for every battle request whose two creature fetches succeed, if the
  generative-model invocation throws, then POST /api/battle answers 200 with the complete
  statistical-fallback outcome, the failure recorded in the response (\<open>geminiError\<close> with
  the message, \<open>metadata.usingFallback = true\<close>); the tool-invocation surface has no
  fallback: \<open>battle_simulation\<close>, given valid identifiers, catches the error and returns
  the error-flagged text \<open>Error simulating battle: battleSimulation: <message>\<close>.
\<close>

theorem C2_model_failure_on_both_surfaces:
  "generated = Inl err \<Longrightarrow>
   msg = ''Gemini API failed: '' @ err_message err @ '' ('' @
         (if err_constructor err = [] then ''Unknown'' else err_constructor err) @ '')'' \<Longrightarrow>
   battle_handler True (Some n1) (Some n2) (Inr completeData1) (Inr completeData2) generated now_iso =
     Status200 (with_metadata (fallback_outcome completeData1 completeData2 msg)
       \<lparr>timestamp_iso = now_iso, usingFallback = True, md_pokemon1 = name completeData1,
        md_pokemon2 = name completeData2, serverStatus = ''success''\<rparr>) \<and>
   geminiError (fallback_outcome completeData1 completeData2 msg) =
     Some \<lparr>occurred = True, ge_message = msg, fallbackUsed = True\<rparr> \<and>
   (isValid (validatePokemonIdentifier arg1) \<and> isValid (validatePokemonIdentifier arg2) \<and>
    client (sanitized (validatePokemonIdentifier arg1)) = Inr pokemon1 \<and>
    client (sanitized (validatePokemonIdentifier arg2)) = Inr pokemon2 \<longrightarrow>
    battleSimulation arg1 arg2 client generated =
      \<lparr>content = PlainText (''Error simulating battle: battleSimulation: '' @ msg), isError = True\<rparr>)"
  by (simp add: battle_handler_def simulateBattle_def battleSimulation_def handleError_def
      fallback_outcome_def Let_def)

theorem C2_model_failure_on_both_surfaces_witness:
  "battle_handler True (Some ''pikachu'') (Some ''onix'') (Inr pikachu) (Inr onix) (Inl quota_error)
     ''2024-01-01T00:00:00.000Z'' =
     Status200 (with_metadata (fallback_outcome pikachu onix ''Gemini API failed: quota exceeded (Error)'')
       \<lparr>timestamp_iso = ''2024-01-01T00:00:00.000Z'', usingFallback = True, md_pokemon1 = ''pikachu'',
        md_pokemon2 = ''onix'', serverStatus = ''success''\<rparr>) \<and>
   isValid (validatePokemonIdentifier ''pikachu'') \<and> isValid (validatePokemonIdentifier ''onix'') \<and>
   example_client (sanitized (validatePokemonIdentifier ''pikachu'')) = Inr pikachu \<and>
   example_client (sanitized (validatePokemonIdentifier ''onix'')) = Inr onix \<and>
   battleSimulation ''pikachu'' ''onix'' example_client (Inl quota_error) =
      \<lparr>content = PlainText ''Error simulating battle: battleSimulation: Gemini API failed: quota exceeded (Error)'',
       isError = True\<rparr>"
proof -
  have m: "''Gemini API failed: quota exceeded (Error)'' =
     ''Gemini API failed: '' @ err_message quota_error @ '' ('' @
         (if err_constructor quota_error = [] then ''Unknown'' else err_constructor quota_error) @ '')''"
    by (simp add: quota_error_def)
  have c: "example_client ''pikachu'' = Inr pikachu" "example_client ''onix'' = Inr onix"
    by (simp_all add: example_client_def)
  have n: "name pikachu = ''pikachu''" "name onix = ''onix''"
    by (simp_all add: pikachu_def onix_def)
  show ?thesis
    using C2_model_failure_on_both_surfaces
        [OF refl m, of "''pikachu''" "''onix''" pikachu onix "''2024-01-01T00:00:00.000Z''"
          "''pikachu''" "''onix''" example_client pikachu onix] c n
    by (simp add: validate_pikachu validate_onix)
qed

section \<open>The declared winner\<close>

lemma replace_first_prefix:
  "startsWith s pat \<Longrightarrow> replace_first pat [] s = drop (length pat) s"
  by (cases s) (auto simp: startsWith_def)

text \<open>
  C10, as the claim states it, fails in two ways.  A WINNER heading with nothing after
  it declares the empty name, which differs from creature 1's name; the parser then falls
  back on the totals, and returns creature 1 (Onix, the greater total) as the winner and
  creature 2 as the loser.  And when a second WINNER heading follows, the last one
  decides: the declared \<open>Draw\<close> of the first heading is not returned.
\<close>

theorem C10_declared_winner_counterexample:
  "startsWith (trim ''**WINNER:**'') ''**WINNER:**'' \<and>
   toLowerCase (trim (replace_first ''**WINNER:**'' [] (trim ''**WINNER:**''))) \<noteq> toLowerCase (name onix) \<and>
   winner (parseBattleResult ''**WINNER:**'' onix pikachu) \<noteq>
     trim (replace_first ''**WINNER:**'' [] (trim ''**WINNER:**'')) \<and>
   winner (parseBattleResult ''**WINNER:**'' onix pikachu) = ''onix'' \<and>
   loser (parseBattleResult ''**WINNER:**'' onix pikachu) = ''pikachu'' \<and>
   loser (parseBattleResult ''**WINNER:**'' onix pikachu) \<noteq> name onix \<and>
   split_on CHR 0x0A (''**WINNER:** Draw'' @ LF @ ''**WINNER:** onix'') = [''**WINNER:** Draw'', ''**WINNER:** onix''] \<and>
   toLowerCase (trim (replace_first ''**WINNER:**'' [] (trim ''**WINNER:** Draw''))) \<noteq> toLowerCase (name onix) \<and>
   winner (parseBattleResult (''**WINNER:** Draw'' @ LF @ ''**WINNER:** onix'') onix pikachu) = ''onix'' \<and>
   loser (parseBattleResult (''**WINNER:** Draw'' @ LF @ ''**WINNER:** onix'') onix pikachu) = ''pikachu''"
  by code_simp

text \<open>
  C10, amended: for every model text whose last \<open>**WINNER:**\<close> heading line declares a
  non-empty name (the rest of the trimmed line after the heading, trimmed) that differs
  case-insensitively from creature 1's name, also when it differs from creature 2's
  name, parseBattleResult returns that raw declared string as winner and creature 1's
  name as loser, so the returned pair need not name the two input creatures.
\<close>

theorem C10_declared_winner_returned_raw:
  "split_on CHR 0x0A text = pre @ h # post \<Longrightarrow>
   startsWith (trim h) ''**WINNER:**'' \<Longrightarrow>
   \<forall>l \<in> set post. \<not> startsWith (trim l) ''**WINNER:**'' \<Longrightarrow>
   w = trim (drop (length ''**WINNER:**'') (trim h)) \<Longrightarrow>
   w \<noteq> [] \<Longrightarrow>
   toLowerCase w \<noteq> toLowerCase (name pokemon1) \<Longrightarrow>
   winner (parseBattleResult text pokemon1 pokemon2) = w \<and>
   loser (parseBattleResult text pokemon1 pokemon2) = name pokemon1"
proof -
  assume sp: "split_on CHR 0x0A text = pre @ h # post"
    and hd: "startsWith (trim h) ''**WINNER:**''"
    and post: "\<forall>l \<in> set post. \<not> startsWith (trim l) ''**WINNER:**''"
    and w: "w = trim (drop (length ''**WINNER:**'') (trim h))" and ne: "w \<noteq> []"
    and diff: "toLowerCase w \<noteq> toLowerCase (name pokemon1)"
  define st0 where "st0 = parse_lines pokemon1 pokemon2 parse_init pre"
  define st1 where "st1 = parse_line pokemon1 pokemon2 st0 h"
  have rf: "replace_first ''**WINNER:**'' [] (trim h) = drop (length ''**WINNER:**'') (trim h)"
    using replace_first_prefix [OF hd] .
  have st1: "ps_winner st1 = w \<and> ps_loser st1 = name pokemon1"
    using hd w diff by (simp add: st1_def parse_line_def Let_def rf)
  have "parse_lines pokemon1 pokemon2 parse_init (split_on CHR 0x0A text) =
      parse_lines pokemon1 pokemon2 st1 post"
    by (simp add: sp parse_lines_append parse_lines_Cons st0_def st1_def)
  then have "ps_winner (parse_lines pokemon1 pokemon2 parse_init (split_on CHR 0x0A text)) = w \<and>
      ps_loser (parse_lines pokemon1 pokemon2 parse_init (split_on CHR 0x0A text)) = name pokemon1"
    using parse_lines_keeps_winner [OF post, of pokemon1 pokemon2 st1] st1 by simp
  then show ?thesis
    using ne by (simp add: parseBattleResult_def finish_parse_def Let_def)
qed

theorem C10_declared_winner_returned_raw_witness:
  "split_on CHR 0x0A (''Here is the result.'' @ LF @ ''**WINNER:** Draw'' @ LF @ ''**SUMMARY:**'' @ LF @ ''Both fainted.'')
     = [''Here is the result.''] @ ''**WINNER:** Draw'' # [''**SUMMARY:**'', ''Both fainted.''] \<and>
   startsWith (trim ''**WINNER:** Draw'') ''**WINNER:**'' \<and>
   list_all (\<lambda>l. \<not> startsWith (trim l) ''**WINNER:**'') [''**SUMMARY:**'', ''Both fainted.''] \<and>
   ''Draw'' = trim (drop (length ''**WINNER:**'') (trim ''**WINNER:** Draw'')) \<and>
   toLowerCase ''Draw'' \<noteq> toLowerCase (name pikachu) \<and>
   toLowerCase ''Draw'' \<noteq> toLowerCase (name onix) \<and>
   winner (parseBattleResult (''Here is the result.'' @ LF @ ''**WINNER:** Draw'' @ LF @ ''**SUMMARY:**'' @ LF @ ''Both fainted.'')
     pikachu onix) = ''Draw'' \<and>
   loser (parseBattleResult (''Here is the result.'' @ LF @ ''**WINNER:** Draw'' @ LF @ ''**SUMMARY:**'' @ LF @ ''Both fainted.'')
     pikachu onix) = ''pikachu''"
proof -
  let ?text = "''Here is the result.'' @ LF @ ''**WINNER:** Draw'' @ LF @ ''**SUMMARY:**'' @ LF @ ''Both fainted.''"
  have sp: "split_on CHR 0x0A ?text = [''Here is the result.''] @ ''**WINNER:** Draw'' # [''**SUMMARY:**'', ''Both fainted.'']"
    by code_simp
  have hd: "startsWith (trim ''**WINNER:** Draw'') ''**WINNER:**''"
    by code_simp
  have post: "\<forall>l \<in> set [''**SUMMARY:**'', ''Both fainted.'']. \<not> startsWith (trim l) ''**WINNER:**''"
    by code_simp
  have w: "''Draw'' = trim (drop (length ''**WINNER:**'') (trim ''**WINNER:** Draw''))"
    by code_simp
  have ne: "''Draw'' \<noteq> []" by simp
  have d1: "toLowerCase ''Draw'' \<noteq> toLowerCase (name pikachu)" by code_simp
  have d2: "toLowerCase ''Draw'' \<noteq> toLowerCase (name onix)" by code_simp
  have n: "name pikachu = ''pikachu''" by (simp add: pikachu_def)
  show ?thesis
    using C10_declared_winner_returned_raw [OF sp hd post w ne d1, of onix] sp hd post w d1 d2 n
    by (simp add: list_all_iff)
qed

section \<open>The simplified projection\<close>

lemma extract_stat_absent:
  "n \<notin> stat_name ` set ss \<Longrightarrow> extract_stat ss n = 0"
proof -
  assume "n \<notin> stat_name ` set ss"
  then have "find (\<lambda>s. stat_name s = n) ss = None"
    by (auto simp: find_None_iff)
  then show ?thesis by (simp add: extract_stat_def)
qed

text \<open>
  C5: for every pair of fetched pokemon and species records, getCompletePokemonData
  returns the simplified projection, whose \<open>stats.total\<close> is the sum of its six stats,
  and each of the six named stats that the raw record lacks is extracted as 0.
\<close>

theorem C5_total_is_sum_of_six_stats:
  "\<exists>sp. getCompletePokemonData identifier (Inr pokemon) (Inr species) = Inr sp \<and>
     sp = transformToSimplifiedPokemon pokemon species \<and>
     total_stats (stats sp) =
       hp (stats sp) + attack (stats sp) + defense (stats sp) + specialAttack (stats sp) +
       specialDefense (stats sp) + speed (stats sp) \<and>
     (''hp'' \<notin> stat_name ` set (p_stats pokemon) \<longrightarrow> hp (stats sp) = 0) \<and>
     (''attack'' \<notin> stat_name ` set (p_stats pokemon) \<longrightarrow> attack (stats sp) = 0) \<and>
     (''defense'' \<notin> stat_name ` set (p_stats pokemon) \<longrightarrow> defense (stats sp) = 0) \<and>
     (''special-attack'' \<notin> stat_name ` set (p_stats pokemon) \<longrightarrow> specialAttack (stats sp) = 0) \<and>
     (''special-defense'' \<notin> stat_name ` set (p_stats pokemon) \<longrightarrow> specialDefense (stats sp) = 0) \<and>
     (''speed'' \<notin> stat_name ` set (p_stats pokemon) \<longrightarrow> speed (stats sp) = 0)"
  by (simp add: getCompletePokemonData_def transformToSimplifiedPokemon_def Let_def
      extract_stat_absent)

theorem C5_total_is_sum_of_six_stats_witness:
  "''speed'' \<notin> stat_name ` set (p_stats raw_without_speed) \<and>
   ''special-defense'' \<notin> stat_name ` set (p_stats raw_without_speed) \<and>
   getCompletePokemonData ''pikachu'' (Inr raw_without_speed) (Inr species_example) =
     Inr (transformToSimplifiedPokemon raw_without_speed species_example) \<and>
   speed (stats (transformToSimplifiedPokemon raw_without_speed species_example)) = 0 \<and>
   specialDefense (stats (transformToSimplifiedPokemon raw_without_speed species_example)) = 0 \<and>
   hp (stats (transformToSimplifiedPokemon raw_without_speed species_example)) = 35 \<and>
   total_stats (stats (transformToSimplifiedPokemon raw_without_speed species_example)) = 180"
proof -
  let ?sp = "transformToSimplifiedPokemon raw_without_speed species_example"
  have absent: "''speed'' \<notin> stat_name ` set (p_stats raw_without_speed)"
      "''special-defense'' \<notin> stat_name ` set (p_stats raw_without_speed)"
    by (simp_all add: raw_without_speed_def)
  have present: "hp (stats ?sp) = 35" "attack (stats ?sp) = 55" "defense (stats ?sp) = 40"
      "specialAttack (stats ?sp) = 50"
    by (simp_all add: transformToSimplifiedPokemon_def Let_def raw_without_speed_def extract_stat_def)
  from C5_total_is_sum_of_six_stats [of "''pikachu''" raw_without_speed species_example]
  have all: "getCompletePokemonData ''pikachu'' (Inr raw_without_speed) (Inr species_example) = Inr ?sp \<and>
     total_stats (stats ?sp) =
       hp (stats ?sp) + attack (stats ?sp) + defense (stats ?sp) + specialAttack (stats ?sp) +
       specialDefense (stats ?sp) + speed (stats ?sp) \<and>
     (''special-defense'' \<notin> stat_name ` set (p_stats raw_without_speed) \<longrightarrow> specialDefense (stats ?sp) = 0) \<and>
     (''speed'' \<notin> stat_name ` set (p_stats raw_without_speed) \<longrightarrow> speed (stats ?sp) = 0)"
    by blast
  with absent have z: "specialDefense (stats ?sp) = 0" "speed (stats ?sp) = 0"
    by blast+
  from all have "total_stats (stats ?sp) =
       hp (stats ?sp) + attack (stats ?sp) + defense (stats ?sp) + specialAttack (stats ?sp) +
       specialDefense (stats ?sp) + speed (stats ?sp)" by blast
  then have t: "total_stats (stats ?sp) = 180"
    by (simp only: present z)
  from all have g: "getCompletePokemonData ''pikachu'' (Inr raw_without_speed) (Inr species_example) = Inr ?sp"
    by blast
  show ?thesis
    using absent g z present(1) t by blast
qed

text \<open>
  C8, as the claim states it, fails: nothing removes duplicates.  A raw record that names
  the type \<open>fire\<close> in two slots and the ability \<open>blaze\<close> in two slots gives lists that
  repeat the name.
\<close>

theorem C8_duplicates_counterexample:
  "\<not> distinct (types (transformToSimplifiedPokemon raw_duplicates species_example)) \<and>
   types (transformToSimplifiedPokemon raw_duplicates species_example) = [''fire'', ''fire''] \<and>
   \<not> distinct (abilities (transformToSimplifiedPokemon raw_duplicates species_example)) \<and>
   abilities (transformToSimplifiedPokemon raw_duplicates species_example) = [''blaze'', ''blaze'']"
  by code_simp

lemma distinct_map_sort_key:
  "distinct (map g (sort_key f xs)) \<longleftrightarrow> distinct (map g xs)"
  by (rule mset_eq_imp_distinct_iff) simp

text \<open>
  C8, amended: for every pair of fetched records, the types list and the abilities list
  of the projection are the names of the raw entries, taken in ascending order of slot
  index (entries with equal slots keep their order); every raw entry appears once, so a
  name that the raw record repeats is repeated, and the lists are free of duplicates
  exactly when the raw names are.
\<close>

theorem C8_ordered_by_slot_duplicates_kept:
  "\<exists>ts as.
     types (transformToSimplifiedPokemon pokemon species) = map type_name ts \<and>
     mset ts = mset (p_types pokemon) \<and> sorted (map type_slot ts) \<and>
     (\<forall>k. filter (\<lambda>t. type_slot t = k) ts = filter (\<lambda>t. type_slot t = k) (p_types pokemon)) \<and>
     abilities (transformToSimplifiedPokemon pokemon species) = map ability_name as \<and>
     mset as = mset (p_abilities pokemon) \<and> sorted (map ability_slot as) \<and>
     (\<forall>k. filter (\<lambda>a. ability_slot a = k) as = filter (\<lambda>a. ability_slot a = k) (p_abilities pokemon)) \<and>
     mset (types (transformToSimplifiedPokemon pokemon species)) = mset (map type_name (p_types pokemon)) \<and>
     mset (abilities (transformToSimplifiedPokemon pokemon species)) = mset (map ability_name (p_abilities pokemon)) \<and>
     distinct (types (transformToSimplifiedPokemon pokemon species)) = distinct (map type_name (p_types pokemon)) \<and>
     distinct (abilities (transformToSimplifiedPokemon pokemon species)) = distinct (map ability_name (p_abilities pokemon))"
proof -
  have t: "types (transformToSimplifiedPokemon pokemon species) = map type_name (sort_key type_slot (p_types pokemon))"
    by (simp add: transformToSimplifiedPokemon_def Let_def)
  have a: "abilities (transformToSimplifiedPokemon pokemon species) = map ability_name (sort_key ability_slot (p_abilities pokemon))"
    by (simp add: transformToSimplifiedPokemon_def Let_def)
  show ?thesis
    apply (rule exI [of _ "sort_key type_slot (p_types pokemon)"])
    apply (rule exI [of _ "sort_key ability_slot (p_abilities pokemon)"])
    apply (simp only: t a distinct_map_sort_key sort_key_stable)
    apply simp
    done
qed

theorem C8_ordered_by_slot_duplicates_kept_witness:
  "types (transformToSimplifiedPokemon raw_without_speed species_example) = [''electric''] \<and>
   abilities (transformToSimplifiedPokemon raw_without_speed species_example) = [''static'', ''lightning-rod''] \<and>
   map ability_name (p_abilities raw_without_speed) = [''lightning-rod'', ''static''] \<and>
   distinct (abilities (transformToSimplifiedPokemon raw_without_speed species_example))"
proof -
  have d: "distinct (map ability_name (p_abilities raw_without_speed))"
    by (simp add: raw_without_speed_def)
  have "distinct (abilities (transformToSimplifiedPokemon raw_without_speed species_example))"
    using C8_ordered_by_slot_duplicates_kept [of raw_without_speed species_example] d by blast
  moreover have "types (transformToSimplifiedPokemon raw_without_speed species_example) = [''electric'']"
    by code_simp
  moreover have "abilities (transformToSimplifiedPokemon raw_without_speed species_example) = [''static'', ''lightning-rod'']"
    by code_simp
  moreover have "map ability_name (p_abilities raw_without_speed) = [''lightning-rod'', ''static'']"
    by (simp add: raw_without_speed_def)
  ultimately show ?thesis by blast
qed

section \<open>Pagination of the list tool\<close>

text \<open>
  C7, as the claim states it, fails: only the upper bound is enforced.  A negative limit,
  a limit between 0 and 1, and minus infinity all reach the data client unchanged.
\<close>

theorem C7_limit_below_one_counterexample:
  "list_limit \<lparr>limit = Some (Finite (- 5)), offset = Some (Finite 0)\<rparr> = Finite (- 5) \<and>
   \<not> (1::real) \<le> - 5 \<and>
   list_limit \<lparr>limit = Some (Finite (1 / 2)), offset = None\<rparr> = Finite (1 / 2) \<and>
   list_limit \<lparr>limit = Some NegInfinity, offset = None\<rparr> = NegInfinity"
  by (simp add: list_limit_def or_default_def truthy_def)

text \<open>
  C7, amended: for every get_pokemon_list call, the effective limit passed to the data
  client is \<open>Math.min(limit || 20, 100)\<close>: it defaults to 20 when the limit is absent (or
  0 or NaN), it never exceeds 100, and it lies in [1,100] whenever the given limit is at
  least 1; a limit below 1 other than 0 is passed through unchanged.  The offset defaults
  to 0.  In particular a call with limit=200 results in an effective limit of 100.
\<close>

theorem C7_effective_limit:
  "(limit args = None \<longrightarrow> list_limit args = Finite 20) \<and>
   (limit args = Some (Finite 0) \<or> limit args = Some NaN \<longrightarrow> list_limit args = Finite 20) \<and>
   (\<forall>r. limit args = Some (Finite r) \<and> r \<noteq> 0 \<longrightarrow> list_limit args = Finite (min r 100)) \<and>
   (\<forall>r. limit args = Some (Finite r) \<and> 1 \<le> r \<longrightarrow>
        (\<exists>q. list_limit args = Finite q \<and> 1 \<le> q \<and> q \<le> 100)) \<and>
   (limit args = Some (Finite 200) \<longrightarrow> list_limit args = Finite 100) \<and>
   (limit args = Some PosInfinity \<longrightarrow> list_limit args = Finite 100) \<and>
   (limit args = Some NegInfinity \<longrightarrow> list_limit args = NegInfinity) \<and>
   list_limit args \<noteq> PosInfinity \<and> list_limit args \<noteq> NaN \<and>
   (\<forall>q. list_limit args = Finite q \<longrightarrow> q \<le> 100) \<and>
   (offset args = None \<longrightarrow> list_offset args = Finite 0) \<and>
   (\<forall>v. offset args = Some v \<longrightarrow> list_offset args = (if truthy v then v else Finite 0)) \<and>
   getPokemonList args client =
     (case client (list_limit args) (list_offset args) of
        Inr pokemonList \<Rightarrow>
          \<lparr>content = ListReport (results pokemonList) (list_count pokemonList) (list_offset args),
           isError = False\<rparr>
      | Inl e \<Rightarrow>
          \<lparr>content = PlainText (''Error retrieving Pokemon list: getPokemonList: '' @ e), isError = True\<rparr>)"
proof -
  have lim: "list_limit args =
     (case limit args of
        None \<Rightarrow> Finite 20
      | Some NaN \<Rightarrow> Finite 20
      | Some NegInfinity \<Rightarrow> NegInfinity
      | Some PosInfinity \<Rightarrow> Finite 100
      | Some (Finite r) \<Rightarrow> if r = 0 then Finite 20 else Finite (min r 100))"
    by (simp add: list_limit_def or_default_def truthy_def split: option.splits number_arg.splits)
  have off: "list_offset args = (case offset args of None \<Rightarrow> Finite 0 | Some v \<Rightarrow> if truthy v then v else Finite 0)"
    by (simp add: list_offset_def or_default_def)
  have g: "getPokemonList args client =
     (case client (list_limit args) (list_offset args) of
        Inr pokemonList \<Rightarrow>
          \<lparr>content = ListReport (results pokemonList) (list_count pokemonList) (list_offset args),
           isError = False\<rparr>
      | Inl e \<Rightarrow>
          \<lparr>content = PlainText (''Error retrieving Pokemon list: getPokemonList: '' @ e), isError = True\<rparr>)"
    by (simp add: getPokemonList_def Let_def handleError_def split: sum.splits)
  have l: "(limit args = None \<longrightarrow> list_limit args = Finite 20) \<and>
   (limit args = Some (Finite 0) \<or> limit args = Some NaN \<longrightarrow> list_limit args = Finite 20) \<and>
   (\<forall>r. limit args = Some (Finite r) \<and> r \<noteq> 0 \<longrightarrow> list_limit args = Finite (min r 100)) \<and>
   (\<forall>r. limit args = Some (Finite r) \<and> 1 \<le> r \<longrightarrow>
        (\<exists>q. list_limit args = Finite q \<and> 1 \<le> q \<and> q \<le> 100)) \<and>
   (limit args = Some (Finite 200) \<longrightarrow> list_limit args = Finite 100) \<and>
   (limit args = Some PosInfinity \<longrightarrow> list_limit args = Finite 100) \<and>
   (limit args = Some NegInfinity \<longrightarrow> list_limit args = NegInfinity) \<and>
   list_limit args \<noteq> PosInfinity \<and> list_limit args \<noteq> NaN \<and>
   (\<forall>q. list_limit args = Finite q \<longrightarrow> q \<le> 100)"
    unfolding lim by (auto split: option.splits number_arg.splits)
  have o: "(offset args = None \<longrightarrow> list_offset args = Finite 0) \<and>
   (\<forall>v. offset args = Some v \<longrightarrow> list_offset args = (if truthy v then v else Finite 0))"
    unfolding off by (auto split: option.splits)
  from l o g show ?thesis by blast
qed

theorem C7_effective_limit_witness:
  "limit \<lparr>limit = Some (Finite 200), offset = Some (Finite 0)\<rparr> = Some (Finite 200) \<and>
   (1::real) \<le> 200 \<and>
   list_limit \<lparr>limit = Some (Finite 200), offset = Some (Finite 0)\<rparr> = Finite 100 \<and>
   list_offset \<lparr>limit = Some (Finite 200), offset = Some (Finite 0)\<rparr> = Finite 0 \<and>
   limit \<lparr>limit = None, offset = None\<rparr> = None \<and>
   list_limit \<lparr>limit = None, offset = None\<rparr> = Finite 20 \<and>
   list_offset \<lparr>limit = None, offset = None\<rparr> = Finite 0"
proof -
  have a: "limit \<lparr>limit = Some (Finite 200), offset = Some (Finite 0)\<rparr> = Some (Finite 200)"
      "offset \<lparr>limit = Some (Finite 200), offset = Some (Finite 0)\<rparr> = Some (Finite 0)"
      "limit \<lparr>limit = None, offset = None\<rparr> = None"
      "offset \<lparr>limit = None, offset = None\<rparr> = None"
    by simp_all
  have t: "\<not> truthy (Finite 0)" by (simp add: truthy_def)
  from C7_effective_limit [of "\<lparr>limit = Some (Finite 200), offset = Some (Finite 0)\<rparr>"] a(1,2) t
  have one: "list_limit \<lparr>limit = Some (Finite 200), offset = Some (Finite 0)\<rparr> = Finite 100"
      "list_offset \<lparr>limit = Some (Finite 200), offset = Some (Finite 0)\<rparr> = Finite 0"
    by (blast, metis)
  from C7_effective_limit [of "\<lparr>limit = None, offset = None\<rparr>"] a(3,4)
  have two: "list_limit \<lparr>limit = None, offset = None\<rparr> = Finite 20"
      "list_offset \<lparr>limit = None, offset = None\<rparr> = Finite 0"
    by blast+
  show ?thesis using a one two by simp
qed

section \<open>The cache of the data client\<close>

lemma CACHE_TTL_value: "CACHE_TTL = 1800000" by (simp add: CACHE_TTL_def)

text \<open>
  C9: the TTL is 30 minutes (1800000 ms).  For every endpoint key: a call made while the
  cached entry's age is strictly below the TTL returns the cached payload and leaves the
  state, the list of issued requests included, as it was; a call made at or after expiry
  issues a new request, and its result overwrites the entry (a failed request leaves the
  expired entry where it is); after a miss that stored a payload, a second call within
  the TTL returns that payload without a further request.  No call removes a key from
  the cache, and no call touches the entry of another key.
\<close>

theorem C9_cache_within_and_after_ttl:
  "CACHE_TTL = 1800000 \<and>
   (cache st endpoint = Some e \<and> now - timestamp e < CACHE_TTL \<longrightarrow>
      fetchWithCache endpoint now remote stored_at st = (Inr (data e), st)) \<and>
   (cache st endpoint = Some e \<and> CACHE_TTL \<le> now - timestamp e \<and> remote = Inr d \<longrightarrow>
      fetchWithCache endpoint now remote stored_at st =
        (Inr d, st\<lparr>cache := (cache st)(endpoint \<mapsto> \<lparr>data = d, timestamp = stored_at\<rparr>),
                   requests := requests st @ [endpoint]\<rparr>)) \<and>
   (cache st endpoint = Some e \<and> CACHE_TTL \<le> now - timestamp e \<and> remote = Inl msg \<longrightarrow>
      fetchWithCache endpoint now remote stored_at st =
        (Inl (''Failed to fetch '' @ endpoint @ '': '' @ msg), st\<lparr>requests := requests st @ [endpoint]\<rparr>)) \<and>
   (cache st endpoint = None \<and> remote = Inr d \<and> now2 - stored_at < CACHE_TTL \<longrightarrow>
      fetchWithCache endpoint now remote stored_at st =
        (Inr d, st\<lparr>cache := (cache st)(endpoint \<mapsto> \<lparr>data = d, timestamp = stored_at\<rparr>),
                   requests := requests st @ [endpoint]\<rparr>) \<and>
      fetchWithCache endpoint now2 remote2 stored_at2
          (snd (fetchWithCache endpoint now remote stored_at st)) =
        (Inr d, snd (fetchWithCache endpoint now remote stored_at st)) \<and>
      requests (snd (fetchWithCache endpoint now2 remote2 stored_at2
          (snd (fetchWithCache endpoint now remote stored_at st)))) = requests st @ [endpoint]) \<and>
   dom (cache st) \<subseteq> dom (cache (snd (fetchWithCache endpoint now remote stored_at st))) \<and>
   (\<forall>k. k \<noteq> endpoint \<longrightarrow> cache (snd (fetchWithCache endpoint now remote stored_at st)) k = cache st k)"
proof -
  have hit: "cache st endpoint = Some e \<and> now - timestamp e < CACHE_TTL \<longrightarrow>
      fetchWithCache endpoint now remote stored_at st = (Inr (data e), st)"
    by (simp add: fetchWithCache_def isValidCache_def)
  have stale_ok: "cache st endpoint = Some e \<and> CACHE_TTL \<le> now - timestamp e \<and> remote = Inr d \<longrightarrow>
      fetchWithCache endpoint now remote stored_at st =
        (Inr d, st\<lparr>cache := (cache st)(endpoint \<mapsto> \<lparr>data = d, timestamp = stored_at\<rparr>),
                   requests := requests st @ [endpoint]\<rparr>)"
    by (simp add: fetchWithCache_def isValidCache_def)
  have stale_err: "cache st endpoint = Some e \<and> CACHE_TTL \<le> now - timestamp e \<and> remote = Inl msg \<longrightarrow>
      fetchWithCache endpoint now remote stored_at st =
        (Inl (''Failed to fetch '' @ endpoint @ '': '' @ msg), st\<lparr>requests := requests st @ [endpoint]\<rparr>)"
    by (simp add: fetchWithCache_def isValidCache_def)
  have twice: "cache st endpoint = None \<and> remote = Inr d \<and> now2 - stored_at < CACHE_TTL \<longrightarrow>
      fetchWithCache endpoint now remote stored_at st =
        (Inr d, st\<lparr>cache := (cache st)(endpoint \<mapsto> \<lparr>data = d, timestamp = stored_at\<rparr>),
                   requests := requests st @ [endpoint]\<rparr>) \<and>
      fetchWithCache endpoint now2 remote2 stored_at2
          (snd (fetchWithCache endpoint now remote stored_at st)) =
        (Inr d, snd (fetchWithCache endpoint now remote stored_at st)) \<and>
      requests (snd (fetchWithCache endpoint now2 remote2 stored_at2
          (snd (fetchWithCache endpoint now remote stored_at st)))) = requests st @ [endpoint]"
    by (simp add: fetchWithCache_def isValidCache_def)
  have keep: "dom (cache st) \<subseteq> dom (cache (snd (fetchWithCache endpoint now remote stored_at st)))"
    by (auto simp: fetchWithCache_def split: option.splits sum.splits if_splits)
  have others: "\<forall>k. k \<noteq> endpoint \<longrightarrow> cache (snd (fetchWithCache endpoint now remote stored_at st)) k = cache st k"
    by (auto simp: fetchWithCache_def split: option.splits sum.splits if_splits)
  from CACHE_TTL_value hit stale_ok stale_err twice keep others show ?thesis by blast
qed

theorem C9_cache_within_and_after_ttl_witness:
  "cache state_example ''/pokemon/pikachu'' = Some \<lparr>data = ''payload-1'', timestamp = 1000\<rparr> \<and>
   1800999 - timestamp \<lparr>data = ''payload-1'', timestamp = 1000\<rparr> < CACHE_TTL \<and>
   fetchWithCache ''/pokemon/pikachu'' 1800999 (Inr ''payload-2'') 1801200 state_example =
     (Inr ''payload-1'', state_example) \<and>
   CACHE_TTL \<le> 1801000 - timestamp \<lparr>data = ''payload-1'', timestamp = 1000\<rparr> \<and>
   fst (fetchWithCache ''/pokemon/pikachu'' 1801000 (Inr ''payload-2'') 1801200 state_example) =
     Inr ''payload-2'' \<and>
   requests (snd (fetchWithCache ''/pokemon/pikachu'' 1801000 (Inr ''payload-2'') 1801200 state_example)) =
     [''/pokemon/pikachu'', ''/pokemon/pikachu''] \<and>
   cache (snd (fetchWithCache ''/pokemon/pikachu'' 1801000 (Inr ''payload-2'') 1801200 state_example))
       ''/pokemon/pikachu'' = Some \<lparr>data = ''payload-2'', timestamp = 1801200\<rparr>"
proof -
  let ?e = "\<lparr>data = ''payload-1'', timestamp = 1000\<rparr> :: string cache_entry"
  have c: "cache state_example ''/pokemon/pikachu'' = Some ?e"
    by (simp add: state_example_def)
  have fresh: "1800999 - timestamp ?e < CACHE_TTL"
    by (simp add: CACHE_TTL_def)
  have stale: "CACHE_TTL \<le> 1801000 - timestamp ?e"
    by (simp add: CACHE_TTL_def)
  have r: "requests state_example = [''/pokemon/pikachu'']"
    by (simp add: state_example_def)
  from C9_cache_within_and_after_ttl [where st = state_example and endpoint = "''/pokemon/pikachu''" and e = ?e and now = 1800999
      and remote = "Inr ''payload-2''" and stored_at = 1801200] c fresh
  have hit: "fetchWithCache ''/pokemon/pikachu'' 1800999 (Inr ''payload-2'') 1801200 state_example =
     (Inr ''payload-1'', state_example)"
    by simp
  from C9_cache_within_and_after_ttl [where st = state_example and endpoint = "''/pokemon/pikachu''" and e = ?e and now = 1801000
      and remote = "Inr ''payload-2''" and d = "''payload-2''" and stored_at = 1801200] c stale
  have miss: "fetchWithCache ''/pokemon/pikachu'' 1801000 (Inr ''payload-2'') 1801200 state_example =
        (Inr ''payload-2'',
         state_example\<lparr>cache := (cache state_example)(''/pokemon/pikachu'' \<mapsto> \<lparr>data = ''payload-2'', timestamp = 1801200\<rparr>),
                   requests := requests state_example @ [''/pokemon/pikachu'']\<rparr>)"
    by simp
  show ?thesis
    using c fresh stale hit by (simp add: miss r)
qed

section \<open>Identifier validation\<close>

lemma sanitize_char_cases:
  "sanitize_char c \<Longrightarrow>
     \<not> js_space c \<and> c \<noteq> CHR ''+'' \<and> c \<noteq> CHR ''.'' \<and> c \<noteq> CHR ''E'' \<and> c \<noteq> CHR ''X'' \<and>
     c \<noteq> CHR ''O'' \<and> c \<noteq> CHR ''B'' \<and> c \<noteq> CHR ''I''"
  by (auto simp: sanitize_char_def is_lower_def is_digit_def js_space_def less_eq_char_def)

lemma digit_not_sign:
  "is_digit c \<Longrightarrow> c \<noteq> CHR ''-'' \<and> c \<noteq> CHR ''+'' \<and> c \<noteq> CHR ''e'' \<and> c \<noteq> CHR ''E'' \<and> c \<noteq> CHR ''.''"
  by (auto simp: is_digit_def less_eq_char_def)

lemma dropWhile_none: "\<forall>c \<in> set s. \<not> P c \<Longrightarrow> dropWhile P s = s"
  by (cases s) auto

lemma trim_no_space: "\<forall>c \<in> set s. \<not> js_space c \<Longrightarrow> trim s = s"
  by (simp add: trim_def dropWhile_none)

lemma sign_split:
  "(\<exists>esg es. r = esg @ es \<and> (esg = [] \<or> esg = ''-'') \<and> P es) = (P r \<or> (\<exists>es. r = CHR ''-'' # es \<and> P es))"
proof
  assume "\<exists>esg es. r = esg @ es \<and> (esg = [] \<or> esg = ''-'') \<and> P es"
  then obtain esg es where "r = esg @ es" "esg = [] \<or> esg = ''-''" "P es" by blast
  then show "P r \<or> (\<exists>es. r = CHR ''-'' # es \<and> P es)" by auto
next
  assume "P r \<or> (\<exists>es. r = CHR ''-'' # es \<and> P es)"
  then show "\<exists>esg es. r = esg @ es \<and> (esg = [] \<or> esg = ''-'') \<and> P es"
  proof
    assume "P r"
    then have "r = [] @ r \<and> ([] = [] \<or> [] = ''-'') \<and> P r" by simp
    then show ?thesis by blast
  next
    assume "\<exists>es. r = CHR ''-'' # es \<and> P es"
    then obtain es where "r = ''-'' @ es \<and> (''-'' = [] \<or> ''-'' = ''-'') \<and> P es" by auto
    then show ?thesis by blast
  qed
qed

lemma all_digits_Cons: "all_digits (c # r) \<Longrightarrow> is_digit c"
  by (simp add: all_digits_def)

lemma signed_integer_form:
  assumes "\<forall>c \<in> set r. sanitize_char c"
  shows "signed_integer r = (\<exists>esg es. r = esg @ es \<and> (esg = [] \<or> esg = ''-'') \<and> all_digits es)"
proof (cases r)
  case Nil
  then show ?thesis by (simp add: sign_split signed_integer_def all_digits_def)
next
  case (Cons c r')
  have np: "c \<noteq> CHR ''+''" using assms Cons sanitize_char_cases by auto
  show ?thesis
  proof (cases "c = CHR ''-''")
    case True
    have "\<not> all_digits r" using Cons True digit_not_sign all_digits_Cons by blast
    then show ?thesis
      using Cons True by (simp add: sign_split signed_integer_def)
  next
    case False
    then show ?thesis
      using Cons np by (simp add: sign_split signed_integer_def)
  qed
qed

lemma exponent_opt_form:
  assumes "\<forall>c \<in> set r. sanitize_char c"
  shows "exponent_opt r =
     (r = [] \<or> (\<exists>r'. r = CHR ''e'' # r' \<and> (\<exists>esg es. r' = esg @ es \<and> (esg = [] \<or> esg = ''-'') \<and> all_digits es)))"
proof (cases r)
  case Nil
  then show ?thesis by (simp add: exponent_opt_def)
next
  case (Cons c r')
  have nE: "c \<noteq> CHR ''E''" using assms Cons sanitize_char_cases by auto
  have r': "\<forall>c \<in> set r'. sanitize_char c" using assms Cons by simp
  show ?thesis
    using Cons nE signed_integer_form [OF r'] by (simp add: exponent_opt_def)
qed

lemma str_unsigned_decimal_code:
  assumes al: "\<forall>c \<in> set u. sanitize_char c"
  shows "str_unsigned_decimal u = (takeWhile is_digit u \<noteq> [] \<and> exponent_opt (dropWhile is_digit u))"
proof -
  have ninf: "u \<noteq> ''Infinity''" using al sanitize_char_cases by fastforce
  have nodot: "c \<noteq> CHR ''.''" if "dropWhile is_digit u = c # r'" for c r'
  proof -
    have "c \<in> set u" using that by (metis list.set_intros(1) set_dropWhileD)
    then show ?thesis using al sanitize_char_cases by blast
  qed
  show ?thesis
  proof (cases "dropWhile is_digit u")
    case Nil
    then have tw: "takeWhile is_digit u = u" by (metis append_Nil2 takeWhile_dropWhile_id)
    show ?thesis
      using ninf by (cases "u = []") (simp_all add: str_unsigned_decimal_def Let_def exponent_opt_def Nil tw)
  next
    case (Cons c r')
    show ?thesis
      using ninf nodot [OF Cons] by (simp add: str_unsigned_decimal_def Let_def Cons)
  qed
qed

lemma digits_then_rest:
  assumes "all_digits ds" and "r = [] \<or> \<not> is_digit (hd r)"
  shows "takeWhile is_digit (ds @ r) = ds \<and> dropWhile is_digit (ds @ r) = r"
proof -
  have d: "\<And>x. x \<in> set ds \<Longrightarrow> is_digit x" using assms(1) by (simp add: all_digits_def list_all_iff)
  have "takeWhile is_digit r = []" "dropWhile is_digit r = r"
    using assms(2) by (cases r; simp)+
  then show ?thesis using d by (simp add: takeWhile_append2 dropWhile_append2)
qed

lemma unsigned_form_code:
  assumes al: "\<forall>c \<in> set u. sanitize_char c"
  shows "unsigned_form u = (takeWhile is_digit u \<noteq> [] \<and> exponent_opt (dropWhile is_digit u))"
proof
  assume "unsigned_form u"
  then obtain ds where ds: "all_digits ds"
    and alt: "u = ds \<or> (\<exists>esg es. u = ds @ ''e'' @ esg @ es \<and> (esg = [] \<or> esg = ''-'') \<and> all_digits es)"
    unfolding unsigned_form_def by blast
  have dn: "ds \<noteq> []" using ds by (simp add: all_digits_def)
  from alt show "takeWhile is_digit u \<noteq> [] \<and> exponent_opt (dropWhile is_digit u)"
  proof
    assume "u = ds"
    then have "takeWhile is_digit u = ds" "dropWhile is_digit u = []"
      using digits_then_rest [OF ds, of "[]"] by (simp_all del: dropWhile_eq_Nil_conv takeWhile_eq_all_conv)
    then show ?thesis using dn by (simp add: exponent_opt_def del: dropWhile_eq_Nil_conv takeWhile_eq_all_conv)
  next
    assume "\<exists>esg es. u = ds @ ''e'' @ esg @ es \<and> (esg = [] \<or> esg = ''-'') \<and> all_digits es"
    then obtain esg es where e: "u = ds @ ''e'' @ esg @ es" "esg = [] \<or> esg = ''-''" "all_digits es"
      by blast
    have ne: "\<not> is_digit CHR ''e''" by (simp add: is_digit_def less_eq_char_def)
    have td: "takeWhile is_digit u = ds \<and> dropWhile is_digit u = ''e'' @ esg @ es"
      using digits_then_rest [OF ds, of "''e'' @ esg @ es"] ne e(1) by simp
    have ral: "\<forall>c \<in> set (''e'' @ esg @ es). sanitize_char c" using al e(1) by simp
    have "exponent_opt (''e'' @ esg @ es)"
      unfolding exponent_opt_form [OF ral] using e(2,3) by auto
    then show ?thesis using td dn by simp
  qed
next
  assume a: "takeWhile is_digit u \<noteq> [] \<and> exponent_opt (dropWhile is_digit u)"
  define ds where "ds = takeWhile is_digit u"
  define r where "r = dropWhile is_digit u"
  have u: "u = ds @ r" by (simp add: ds_def r_def)
  have "list_all is_digit ds" unfolding ds_def list_all_iff by (meson set_takeWhileD)
  then have dd: "all_digits ds" using a by (simp add: all_digits_def ds_def)
  have ral: "\<forall>c \<in> set r. sanitize_char c" using al u by auto
  have "r = [] \<or> (\<exists>r'. r = CHR ''e'' # r' \<and> (\<exists>esg es. r' = esg @ es \<and> (esg = [] \<or> esg = ''-'') \<and> all_digits es))"
    using a exponent_opt_form [OF ral] by (simp add: r_def)
  then show "unsigned_form u"
  proof
    assume "r = []"
    then have "u = ds" using u by simp
    then show ?thesis unfolding unsigned_form_def using dd by blast
  next
    assume "\<exists>r'. r = CHR ''e'' # r' \<and> (\<exists>esg es. r' = esg @ es \<and> (esg = [] \<or> esg = ''-'') \<and> all_digits es)"
    then obtain esg es where "r = ''e'' @ esg @ es" "esg = [] \<or> esg = ''-''" "all_digits es"
      by auto
    then have "u = ds @ ''e'' @ esg @ es \<and> (esg = [] \<or> esg = ''-'') \<and> all_digits es"
      using u by simp
    then show ?thesis unfolding unsigned_form_def using dd by blast
  qed
qed

lemma str_unsigned_decimal_form:
  "\<forall>c \<in> set u. sanitize_char c \<Longrightarrow> str_unsigned_decimal u = unsigned_form u"
  by (simp add: str_unsigned_decimal_code unsigned_form_code)

lemma unsigned_form_starts_with_digit:
  "unsigned_form u \<Longrightarrow> \<exists>d r. u = d # r \<and> is_digit d"
proof -
  assume "unsigned_form u"
  then obtain ds t where "all_digits ds" "u = ds @ t"
    unfolding unsigned_form_def by (metis append_Nil2)
  then show ?thesis by (cases ds) (simp_all add: all_digits_def)
qed

lemma str_decimal_form:
  assumes al: "\<forall>c \<in> set s. sanitize_char c"
  shows "str_decimal s = decimal_form s"
proof (cases s)
  case Nil
  have "\<not> unsigned_form []" using unsigned_form_starts_with_digit by blast
  then show ?thesis
    using Nil by (simp add: str_decimal_def decimal_form_def)
next
  case (Cons c r)
  have np: "c \<noteq> CHR ''+''" using al Cons sanitize_char_cases by auto
  have ral: "\<forall>c \<in> set r. sanitize_char c" using al Cons by simp
  show ?thesis
  proof (cases "c = CHR ''-''")
    case True
    have "\<not> unsigned_form s"
      using unsigned_form_starts_with_digit [of s] Cons True digit_not_sign by auto
    then show ?thesis
      using Cons True str_unsigned_decimal_form [OF ral]
      by (simp add: str_decimal_def decimal_form_def)
  next
    case False
    then show ?thesis
      using Cons np str_unsigned_decimal_form [OF al]
      by (simp add: str_decimal_def decimal_form_def)
  qed
qed

lemma radix_form_Cons2:
  "radix_form (z # c # r) =
     (z = CHR ''0'' \<and> r \<noteq> [] \<and>
      ((c = CHR ''x'' \<and> list_all is_hex_digit r) \<or>
       (c = CHR ''o'' \<and> list_all is_octal_digit r) \<or>
       (c = CHR ''b'' \<and> list_all is_binary_digit r)))"
  unfolding radix_form_def by auto

lemma non_decimal_integer_form:
  assumes al: "\<forall>c \<in> set s. sanitize_char c"
  shows "non_decimal_integer s = radix_form s"
proof (cases s)
  case Nil
  then show ?thesis by (simp add: non_decimal_integer_def radix_form_def)
next
  case outer: (Cons z t)
  show ?thesis
  proof (cases t)
    case Nil
    then show ?thesis using outer by (simp add: non_decimal_integer_def radix_form_def)
  next
    case (Cons c r)
    have "c \<noteq> CHR ''X'' \<and> c \<noteq> CHR ''O'' \<and> c \<noteq> CHR ''B''"
      using al outer Cons sanitize_char_cases by auto
    then show ?thesis
      unfolding outer Cons radix_form_Cons2 by (auto simp: non_decimal_integer_def)
  qed
qed

lemma digit_not_space: "is_digit d \<Longrightarrow> \<not> js_space d"
  by (auto simp: is_digit_def js_space_def less_eq_char_def)
lemma minus_not_space: "\<not> js_space CHR ''-''"
  by (simp add: js_space_def)

lemma parseFloat_digit: "is_digit d \<Longrightarrow> \<not> parseFloat_isNaN (d # r)"
  using digit_not_space [of d] digit_not_sign [of d]
  by (simp add: parseFloat_isNaN_def Let_def)

lemma parseFloat_minus_digit: "is_digit d \<Longrightarrow> \<not> parseFloat_isNaN (CHR ''-'' # d # r)"
  using minus_not_space by (simp add: parseFloat_isNaN_def Let_def)

lemma numeric_form_starts: 
  assumes f: "decimal_form s \<or> radix_form s"
  shows "(\<exists>d r. s = d # r \<and> is_digit d) \<or> (\<exists>d r. s = CHR ''-'' # d # r \<and> is_digit d)"
  using f
proof
  assume "decimal_form s"
  then have "unsigned_form s \<or> (\<exists>u. s = CHR ''-'' # u \<and> unsigned_form u)"
    by (simp add: decimal_form_def)
  then show ?thesis
  proof
    assume "unsigned_form s"
    then show ?thesis using unsigned_form_starts_with_digit by blast
  next
    assume "\<exists>u. s = CHR ''-'' # u \<and> unsigned_form u"
    then obtain u where u: "s = CHR ''-'' # u" "unsigned_form u" by blast
    from unsigned_form_starts_with_digit [OF u(2)] obtain d r where "u = d # r" "is_digit d" by blast
    with u(1) show ?thesis by blast
  qed
next
  assume "radix_form s"
  then obtain r where "s = CHR ''0'' # r" unfolding radix_form_def by auto
  moreover have "is_digit CHR ''0''" by (simp add: is_digit_def)
  ultimately show ?thesis by blast
qed

lemma parseFloat_not_NaN:
  "decimal_form s \<or> radix_form s \<Longrightarrow> \<not> parseFloat_isNaN s"
  using numeric_form_starts [of s] parseFloat_digit parseFloat_minus_digit by blast

lemma isNumeric_form:
  assumes al: "\<forall>c \<in> set s. sanitize_char c"
  shows "isNumeric s = (decimal_form s \<or> radix_form s)"
proof -
  have "\<forall>c \<in> set s. \<not> js_space c" using al sanitize_char_cases by blast
  then have tr: "trim s = s" by (rule trim_no_space)
  show ?thesis
  proof (cases "decimal_form s \<or> radix_form s")
    case True
    then have "s \<noteq> []" using numeric_form_starts [of s] by blast
    have "\<not> Number_isNaN s"
      using True unfolding Number_isNaN_def Let_def tr str_decimal_form [OF al] non_decimal_integer_form [OF al]
      by blast
    then show ?thesis
      using True parseFloat_not_NaN [OF True] by (simp add: isNumeric_def)
  next
    case False
    show ?thesis
    proof (cases "s = []")
      case True
      have "parseFloat_isNaN []" by (simp add: parseFloat_isNaN_def startsWith_def)
      then show ?thesis using False True by (simp add: isNumeric_def)
    next
      case ne: False
      have "Number_isNaN s"
        using False ne unfolding Number_isNaN_def Let_def tr str_decimal_form [OF al] non_decimal_integer_form [OF al]
        by blast
      then show ?thesis using False by (simp add: isNumeric_def)
    qed
  qed
qed

lemma sanitizeInput_alphabet: "\<forall>c \<in> set (sanitizeInput x). sanitize_char c"
  by (simp add: sanitizeInput_def)


lemma fully_numeric_decimal_form: "fully_numeric t \<Longrightarrow> decimal_form t"
  unfolding fully_numeric_def decimal_form_def unsigned_form_def all_digits_def by blast


text \<open>
  C6, as the claim states it, fails in the direction "accepts only": the sanitized
  identifiers \<open>1e5\<close>, \<open>0x1f\<close> and \<open>-5\<close> are neither fully numeric nor made of letters
  and hyphens only, and all three are accepted, because \<open>isNumeric\<close> asks
  \<open>Number\<close> and \<open>parseFloat\<close>, which read exponents, radix prefixes and a sign.
\<close>

theorem C6_numeric_shapes_counterexample:
  "sanitized (validatePokemonIdentifier ''1e5'') = ''1e5'' \<and>
   isValid (validatePokemonIdentifier ''1e5'') \<and> \<not> claimed_valid ''1e5'' \<and>
   isValid (validatePokemonIdentifier ''0x1f'') \<and> \<not> claimed_valid ''0x1f'' \<and>
   isValid (validatePokemonIdentifier ''-5'') \<and> \<not> claimed_valid ''-5''"
  by code_simp


text \<open>
  C6, amended: for every input string, validatePokemonIdentifier first sanitizes it
  (trim, lowercase, strip every character outside [a-z0-9-]) and accepts exactly when
  the sanitized result is non-empty and is either numeric for JavaScript (digits with an
  optional leading minus sign and an optional exponent \<open>e\<close>, optional minus sign,
  digits; or \<open>0x\<close>, \<open>0o\<close>, \<open>0b\<close> before digits of that base) or consists only of lowercase
  letters and hyphens.  Every identifier the claim's rule accepts is accepted; in
  particular \<open>Pikachu!\<close> sanitizes to \<open>pikachu\<close> and is valid, three spaces are invalid,
  and \<open>25\<close> is valid as numeric.
\<close>

theorem C6_validation_rule:
  "sanitized (validatePokemonIdentifier identifier) =
     filter sanitize_char (toLowerCase (trim identifier)) \<and>
   isValid (validatePokemonIdentifier identifier) =
     (let s = sanitized (validatePokemonIdentifier identifier)
      in s \<noteq> [] \<and> (decimal_form s \<or> radix_form s \<or> letters_hyphens s)) \<and>
   (claimed_valid identifier \<longrightarrow> isValid (validatePokemonIdentifier identifier)) \<and>
   validatePokemonIdentifier ''Pikachu!'' = \<lparr>isValid = True, sanitized = ''pikachu''\<rparr> \<and>
   \<not> isValid (validatePokemonIdentifier ''   '') \<and>
   validatePokemonIdentifier ''25'' = \<lparr>isValid = True, sanitized = ''25''\<rparr> \<and>
   isNumeric ''25''"
proof -
  have s: "sanitized (validatePokemonIdentifier identifier) = sanitizeInput identifier"
    by (simp add: validatePokemonIdentifier_def Let_def)
  have v: "isValid (validatePokemonIdentifier identifier) =
     (sanitizeInput identifier \<noteq> [] \<and>
      (decimal_form (sanitizeInput identifier) \<or> radix_form (sanitizeInput identifier) \<or>
       letters_hyphens (sanitizeInput identifier)))"
    unfolding validatePokemonIdentifier_def Let_def
      isNumeric_form [OF sanitizeInput_alphabet [of "identifier"]]
    by auto
  have c: "claimed_valid identifier \<longrightarrow> isValid (validatePokemonIdentifier identifier)"
    unfolding v claimed_valid_def Let_def using fully_numeric_decimal_form by blast
  have ex1: "validatePokemonIdentifier ''Pikachu!'' = \<lparr>isValid = True, sanitized = ''pikachu''\<rparr>"
    by code_simp
  have ex2: "\<not> isValid (validatePokemonIdentifier ''   '')"
    by code_simp
  have ex3: "validatePokemonIdentifier ''25'' = \<lparr>isValid = True, sanitized = ''25''\<rparr>"
    by code_simp
  have ex4: "isNumeric ''25''"
    by code_simp
  have s': "sanitizeInput identifier = filter sanitize_char (toLowerCase (trim identifier))"
    by (simp add: sanitizeInput_def)
  show ?thesis
    unfolding Let_def s using v c ex1 ex2 ex3 ex4 s' by blast
qed


theorem C6_validation_rule_witness:
  "claimed_valid ''Mr-Mime '' \<and>
   sanitized (validatePokemonIdentifier ''Mr-Mime '') = ''mr-mime'' \<and>
   isValid (validatePokemonIdentifier ''Mr-Mime '') \<and>
   letters_hyphens ''mr-mime'' \<and>
   isValid (validatePokemonIdentifier ''1e5'') \<and>
   sanitized (validatePokemonIdentifier ''1e5'') = ''1e5'' \<and>
   decimal_form ''1e5''"
proof -
  have c: "claimed_valid ''Mr-Mime ''" by code_simp
  have s: "sanitized (validatePokemonIdentifier ''Mr-Mime '') = ''mr-mime''" by code_simp
  have l: "letters_hyphens ''mr-mime''" by code_simp
  have v: "isValid (validatePokemonIdentifier ''Mr-Mime '')"
    using C6_validation_rule [of "''Mr-Mime ''"] c by blast
  have s2: "sanitized (validatePokemonIdentifier ''1e5'') = ''1e5''" by code_simp
  have "all_digits ''1'' \<and> ''1e5'' = ''1'' @ ''e'' @ [] @ ''5'' \<and> all_digits ''5''" by code_simp
  then have d: "decimal_form ''1e5''"
    unfolding decimal_form_def unsigned_form_def by blast
  have v2: "isValid (validatePokemonIdentifier ''1e5'')"
    using C6_validation_rule [of "''1e5''"] d unfolding s2 Let_def by blast
  show ?thesis using c s l v v2 s2 d by blast
qed

section \<open>Parsing a narrative made of sections\<close>

lemma startsWith_append: "startsWith s (p @ q) \<Longrightarrow> startsWith s p"
proof -
  assume "startsWith s (p @ q)"
  then have "take (length p + length q) s = p @ q" by (simp add: startsWith_def)
  then have "take (length p) (take (length p + length q) s) = p" by simp
  then show ?thesis by (simp add: startsWith_def min_def)
qed

lemma parse_lines_Nil: "parse_lines p1 p2 st [] = st"
  by (simp add: parse_lines_def)

lemma plain_not_heading:
  assumes "plain_line l"
  shows "\<not> startsWith (trim l) ''**WINNER:**''" and "\<not> startsWith (trim l) ''**BATTLE LOG:**''"
    and "\<not> startsWith (trim l) ''**STRATEGIC ANALYSIS:**''" and "\<not> startsWith (trim l) ''**SUMMARY:**''"
  using assms startsWith_append [of "trim l" "''**''" "''WINNER:**''"]
    startsWith_append [of "trim l" "''**''" "''BATTLE LOG:**''"]
    startsWith_append [of "trim l" "''**''" "''STRATEGIC ANALYSIS:**''"]
    startsWith_append [of "trim l" "''**''" "''SUMMARY:**''"]
  by (auto simp: plain_line_def)

lemma parse_line_plain:
  "plain_line l \<Longrightarrow>
   parse_line p1 p2 st l =
     (if trim l = [] then st
      else if currentSection st = ''battleLog'' then st\<lparr>ps_battleLog := ps_battleLog st @ [trim l]\<rparr>
      else if currentSection st = ''analysis'' then
        st\<lparr>ps_analysis := ps_analysis st @ (if ps_analysis st \<noteq> [] then '' '' else []) @ trim l\<rparr>
      else if currentSection st = ''summary'' then
        st\<lparr>ps_summary := ps_summary st @ (if ps_summary st \<noteq> [] then '' '' else []) @ trim l\<rparr>
      else st)"
  using plain_not_heading [of l]
  by (simp add: parse_line_def Let_def plain_line_def)

lemma content_lines_Cons:
  "content_lines (l # ls) = (if trim l = [] then content_lines ls else trim l # content_lines ls)"
  by (simp add: content_lines_def)

lemma acc_join_Cons:
  "acc_join a (l # ls) = acc_join (a @ (if a \<noteq> [] then '' '' else []) @ l) ls"
  by (simp add: acc_join_def)

lemma acc_join_Nil: "acc_join a [] = a"
  by (simp add: acc_join_def)

lemma parse_plain_log:
  "currentSection st = ''battleLog'' \<Longrightarrow> list_all plain_line ls \<Longrightarrow>
   parse_lines p1 p2 st ls = st\<lparr>ps_battleLog := ps_battleLog st @ content_lines ls\<rparr>"
proof (induction ls arbitrary: st)
  case Nil
  then show ?case by (simp add: parse_lines_Nil content_lines_def)
next
  case (Cons l ls)
  have pl: "plain_line l" and rest: "list_all plain_line ls" using Cons.prems(2) by simp_all
  show ?case
  proof (cases "trim l = []")
    case True
    then have "parse_line p1 p2 st l = st" using pl by (simp add: parse_line_plain)
    then show ?thesis
      using Cons.IH [OF Cons.prems(1) rest] True by (simp add: parse_lines_Cons content_lines_Cons)
  next
    case False
    define st' where "st' = st\<lparr>ps_battleLog := ps_battleLog st @ [trim l]\<rparr>"
    have step: "parse_line p1 p2 st l = st'"
      using pl False Cons.prems(1) by (simp add: parse_line_plain st'_def)
    have cur: "currentSection st' = ''battleLog''" using Cons.prems(1) by (simp add: st'_def)
    show ?thesis
      using Cons.IH [OF cur rest] False by (simp add: parse_lines_Cons content_lines_Cons step st'_def)
  qed
qed

lemma parse_plain_analysis:
  "currentSection st = ''analysis'' \<Longrightarrow> list_all plain_line ls \<Longrightarrow>
   parse_lines p1 p2 st ls = st\<lparr>ps_analysis := acc_join (ps_analysis st) (content_lines ls)\<rparr>"
proof (induction ls arbitrary: st)
  case Nil
  then show ?case by (simp add: parse_lines_Nil content_lines_def acc_join_Nil)
next
  case (Cons l ls)
  have pl: "plain_line l" and rest: "list_all plain_line ls" using Cons.prems(2) by simp_all
  show ?case
  proof (cases "trim l = []")
    case True
    then have "parse_line p1 p2 st l = st" using pl by (simp add: parse_line_plain)
    then show ?thesis
      using Cons.IH [OF Cons.prems(1) rest] True by (simp add: parse_lines_Cons content_lines_Cons)
  next
    case False
    define st' where
      "st' = st\<lparr>ps_analysis := ps_analysis st @ (if ps_analysis st \<noteq> [] then '' '' else []) @ trim l\<rparr>"
    have step: "parse_line p1 p2 st l = st'"
      using pl False Cons.prems(1) by (simp add: parse_line_plain st'_def)
    have cur: "currentSection st' = ''analysis''" using Cons.prems(1) by (simp add: st'_def)
    show ?thesis
      using Cons.IH [OF cur rest] False
      by (simp add: parse_lines_Cons content_lines_Cons acc_join_Cons step st'_def)
  qed
qed

lemma parse_plain_summary:
  "currentSection st = ''summary'' \<Longrightarrow> list_all plain_line ls \<Longrightarrow>
   parse_lines p1 p2 st ls = st\<lparr>ps_summary := acc_join (ps_summary st) (content_lines ls)\<rparr>"
proof (induction ls arbitrary: st)
  case Nil
  then show ?case by (simp add: parse_lines_Nil content_lines_def acc_join_Nil)
next
  case (Cons l ls)
  have pl: "plain_line l" and rest: "list_all plain_line ls" using Cons.prems(2) by simp_all
  show ?case
  proof (cases "trim l = []")
    case True
    then have "parse_line p1 p2 st l = st" using pl by (simp add: parse_line_plain)
    then show ?thesis
      using Cons.IH [OF Cons.prems(1) rest] True by (simp add: parse_lines_Cons content_lines_Cons)
  next
    case False
    define st' where
      "st' = st\<lparr>ps_summary := ps_summary st @ (if ps_summary st \<noteq> [] then '' '' else []) @ trim l\<rparr>"
    have step: "parse_line p1 p2 st l = st'"
      using pl False Cons.prems(1) by (simp add: parse_line_plain st'_def)
    have cur: "currentSection st' = ''summary''" using Cons.prems(1) by (simp add: st'_def)
    show ?thesis
      using Cons.IH [OF cur rest] False
      by (simp add: parse_lines_Cons content_lines_Cons acc_join_Cons step st'_def)
  qed
qed

lemma parse_plain_ignored:
  "currentSection st = ''winner'' \<or> currentSection st = [] \<Longrightarrow> list_all plain_line ls \<Longrightarrow>
   parse_lines p1 p2 st ls = st"
proof (induction ls)
  case Nil
  then show ?case by (simp add: parse_lines_Nil)
next
  case (Cons l ls)
  have "parse_line p1 p2 st l = st"
    using Cons.prems by (auto simp: parse_line_plain)
  then show ?case using Cons by (simp add: parse_lines_Cons)
qed

lemma parse_line_heading:
  "heading_ok k h \<Longrightarrow>
   parse_line p1 p2 st h =
     (case k of
        Winner \<Rightarrow>
          st\<lparr>currentSection := ''winner'', ps_winner := declared_name h,
             ps_loser := (if toLowerCase (declared_name h) = toLowerCase (name p1) then name p2 else name p1)\<rparr>
      | BattleLog \<Rightarrow> st\<lparr>currentSection := ''battleLog''\<rparr>
      | Analysis \<Rightarrow> st\<lparr>currentSection := ''analysis''\<rparr>
      | Summary \<Rightarrow> st\<lparr>currentSection := ''summary''\<rparr>)"
proof (cases k)
  case Winner
  assume "heading_ok k h"
  then have hd: "startsWith (trim h) ''**WINNER:**''" using Winner by simp
  show ?thesis
    using hd replace_first_prefix [OF hd]
    by (simp add: Winner parse_line_def Let_def declared_name_def)
next
  case BattleLog
  assume "heading_ok k h"
  then have "trim h = ''**BATTLE LOG:**''" using BattleLog by simp
  then show ?thesis by (simp add: BattleLog parse_line_def Let_def startsWith_def)
next
  case Analysis
  assume "heading_ok k h"
  then have "trim h = ''**STRATEGIC ANALYSIS:**''" using Analysis by simp
  then show ?thesis by (simp add: Analysis parse_line_def Let_def startsWith_def)
next
  case Summary
  assume "heading_ok k h"
  then have "trim h = ''**SUMMARY:**''" using Summary by simp
  then show ?thesis by (simp add: Summary parse_line_def Let_def startsWith_def)
qed

lemma parse_block:
  assumes "heading_ok k h" and "list_all plain_line ls"
  shows "parse_lines p1 p2 st (block_lines (k, h, ls)) = block_effect p1 p2 st (k, h, ls)"
proof (cases k)
  case Winner
  then show ?thesis
    using assms parse_line_heading [OF assms(1), of p1 p2 st]
    by (simp add: parse_lines_Cons parse_plain_ignored)
next
  case BattleLog
  then show ?thesis
    using assms parse_line_heading [OF assms(1), of p1 p2 st]
    by (simp add: parse_lines_Cons parse_plain_log)
next
  case Analysis
  then show ?thesis
    using assms parse_line_heading [OF assms(1), of p1 p2 st]
    by (simp add: parse_lines_Cons parse_plain_analysis)
next
  case Summary
  then show ?thesis
    using assms parse_line_heading [OF assms(1), of p1 p2 st]
    by (simp add: parse_lines_Cons parse_plain_summary)
qed

lemma parse_blocks:
  "list_all well_formed_block bs \<Longrightarrow>
   parse_lines p1 p2 st (concat (map block_lines bs)) = foldl (block_effect p1 p2) st bs"
proof (induction bs arbitrary: st)
  case Nil
  then show ?case by (simp add: parse_lines_Nil)
next
  case (Cons b bs)
  obtain k h ls where b: "b = (k, h, ls)" by (cases b) auto
  have wf: "heading_ok k h" "list_all plain_line ls" using Cons.prems b by simp_all
  have rest: "list_all well_formed_block bs" using Cons.prems by simp
  have "parse_lines p1 p2 st (concat (map block_lines (b # bs))) =
      parse_lines p1 p2 (parse_lines p1 p2 st (block_lines b)) (concat (map block_lines bs))"
    by (simp add: parse_lines_append)
  also have "\<dots> = parse_lines p1 p2 (block_effect p1 p2 st b) (concat (map block_lines bs))"
    using parse_block [OF wf] b by simp
  also have "\<dots> = foldl (block_effect p1 p2) (block_effect p1 p2 st b) bs"
    using Cons.IH [OF rest] .
  finally show ?case by simp
qed

text \<open>What the blocks of one kind contribute, in order.\<close>

lemma log_after_blocks:
  "ps_battleLog (foldl (block_effect p1 p2) st bs) =
   ps_battleLog st @ concat (map (\<lambda>b. content_lines (snd (snd b))) (filter (\<lambda>b. fst b = BattleLog) bs))"
proof (induction bs arbitrary: st)
  case Nil
  then show ?case by simp
next
  case (Cons b bs)
  obtain k h ls where b: "b = (k, h, ls)" by (cases b) auto
  show ?case unfolding b by (cases k) (simp_all add: Cons.IH)
qed

lemma analysis_after_blocks:
  "ps_analysis (foldl (block_effect p1 p2) st bs) =
   acc_join (ps_analysis st) (concat (map (\<lambda>b. content_lines (snd (snd b))) (filter (\<lambda>b. fst b = Analysis) bs)))"
proof (induction bs arbitrary: st)
  case Nil
  then show ?case by (simp add: acc_join_Nil)
next
  case (Cons b bs)
  obtain k h ls where b: "b = (k, h, ls)" by (cases b) auto
  show ?case unfolding b by (cases k) (simp_all add: Cons.IH acc_join_def)
qed

lemma summary_after_blocks:
  "ps_summary (foldl (block_effect p1 p2) st bs) =
   acc_join (ps_summary st) (concat (map (\<lambda>b. content_lines (snd (snd b))) (filter (\<lambda>b. fst b = Summary) bs)))"
proof (induction bs arbitrary: st)
  case Nil
  then show ?case by (simp add: acc_join_Nil)
next
  case (Cons b bs)
  obtain k h ls where b: "b = (k, h, ls)" by (cases b) auto
  show ?case unfolding b by (cases k) (simp_all add: Cons.IH acc_join_def)
qed

lemma winner_after_blocks:
  "ps_winner (foldl (block_effect p1 p2) st bs) =
     (case filter (\<lambda>b. fst b = Winner) bs of [] \<Rightarrow> ps_winner st | ws \<Rightarrow> declared_name (fst (snd (last ws)))) \<and>
   ps_loser (foldl (block_effect p1 p2) st bs) =
     (case filter (\<lambda>b. fst b = Winner) bs of [] \<Rightarrow> ps_loser st
      | ws \<Rightarrow> (if toLowerCase (declared_name (fst (snd (last ws)))) = toLowerCase (name p1)
               then name p2 else name p1))"
proof (induction bs arbitrary: st)
  case Nil
  then show ?case by simp
next
  case (Cons b bs)
  obtain k h ls where b: "b = (k, h, ls)" by (cases b) auto
  show ?case unfolding b by (cases k) (simp_all add: Cons.IH split: list.splits)
qed

lemma join_Cons_nonempty: "x \<noteq> [] \<Longrightarrow> join sep (x # xs) \<noteq> []"
  by (cases xs) simp_all

lemma acc_join_from_nonempty:
  "list_all (\<lambda>l. l \<noteq> []) ls \<Longrightarrow> a \<noteq> [] \<Longrightarrow> acc_join a ls = join '' '' (a # ls)"
proof (induction ls arbitrary: a)
  case Nil
  then show ?case by (simp add: acc_join_Nil)
next
  case (Cons l ls)
  have "acc_join a (l # ls) = acc_join (a @ '' '' @ l) ls" using Cons.prems by (simp add: acc_join_Cons)
  also have "\<dots> = join '' '' ((a @ '' '' @ l) # ls)" using Cons by simp
  also have "\<dots> = a @ '' '' @ join '' '' (l # ls)" by (cases ls) simp_all
  finally show ?case by simp
qed

lemma acc_join_empty:
  "list_all (\<lambda>l. l \<noteq> []) ls \<Longrightarrow> acc_join [] ls = join '' '' ls"
proof (cases ls)
  case Nil
  then show ?thesis by (simp add: acc_join_Nil)
next
  case (Cons l ls')
  assume "list_all (\<lambda>l. l \<noteq> []) ls"
  then show ?thesis using Cons acc_join_from_nonempty [of ls' l] by (simp add: acc_join_Cons)
qed

lemma content_lines_nonempty: "list_all (\<lambda>l. l \<noteq> []) (content_lines ls)"
  by (simp add: content_lines_def list_all_iff)

lemma join_nonempty: "ls \<noteq> [] \<Longrightarrow> list_all (\<lambda>l. l \<noteq> []) ls \<Longrightarrow> join sep ls \<noteq> []"
  by (cases ls) (simp_all add: join_Cons_nonempty)

text \<open>
  Lines without a line feed are the pieces of their join: every preamble and list of
  blocks is the \<open>split\<close> of a text, the one that joins their lines.
\<close>

lemma split_on_no_separator: "c \<notin> set x \<Longrightarrow> split_on c x = [x]"
  by (induction x) auto

lemma split_on_first_piece: "c \<notin> set x \<Longrightarrow> split_on c (x @ c # rest) = x # split_on c rest"
  by (induction x) auto

lemma split_on_join:
  "ls \<noteq> [] \<Longrightarrow> list_all (\<lambda>l. c \<notin> set l) ls \<Longrightarrow> split_on c (join [c] ls) = ls"
proof (induction "[c]" ls rule: join.induct)
  case 1
  then show ?case by simp
next
  case (2 x)
  then show ?case by (simp add: split_on_no_separator)
next
  case (3 x y ys)
  then show ?case by (simp add: split_on_first_piece)
qed

text \<open>
  C4, as the claim states it, fails.  In a narrative with the four headings in place, a
  battle-log line that starts with bold text (\<open>**Turn 1:** ...\<close>) is dropped, so the log
  is not one entry per non-empty line of the section; and a battle-log section without
  lines gives the whole narrative as the only log entry.
\<close>

theorem C4_sections_counterexample:
  "split_on CHR 0x0A bold_narrative = concat (map block_lines bold_blocks) \<and>
   content_lines [''**Turn 1:** Pikachu used Thunderbolt!'', ''Turn 2: Onix fainted!''] =
     [''**Turn 1:** Pikachu used Thunderbolt!'', ''Turn 2: Onix fainted!''] \<and>
   battleLog (parseBattleResult bold_narrative pikachu onix) = [''Turn 2: Onix fainted!''] \<and>
   split_on CHR 0x0A empty_log_narrative = concat (map block_lines empty_log_blocks) \<and>
   content_lines [] = [] \<and>
   battleLog (parseBattleResult empty_log_narrative pikachu onix) = [empty_log_narrative]"
  by code_simp


text \<open>
  C4, amended: for every model response text whose lines are an optional preamble and
  then the four sections, each once, in any order, where the WINNER heading line declares
  a non-empty name, the other three headings stand alone on their line and are followed
  by at least one non-blank line, and no line other than a heading starts, trimmed, with
  \<open>**\<close>: parseBattleResult returns the declared winner name, the battle-log lines (one
  entry per non-empty line, trimmed), and the analysis and summary texts equal to the
  trimmed non-empty lines of their sections joined by single spaces; the loser is
  creature 2 when the declared name is creature 1's, case-insensitively, and creature 1
  otherwise.
\<close>

theorem C4_sections_recovered:
  "split_on CHR 0x0A text = preamble @ concat (map block_lines blocks) \<Longrightarrow>
   list_all plain_line preamble \<Longrightarrow>
   mset blocks = {#(Winner, hw, lw), (BattleLog, hl, ll), (Analysis, ha, la), (Summary, hs, ls)#} \<Longrightarrow>
   list_all well_formed_block blocks \<Longrightarrow>
   parseBattleResult text pokemon1 pokemon2 =
     \<lparr>winner = declared_name hw,
      loser = (if toLowerCase (declared_name hw) = toLowerCase (name pokemon1)
               then name pokemon2 else name pokemon1),
      battleLog = content_lines ll,
      analysis = join '' '' (content_lines la),
      summary = join '' '' (content_lines ls)\<rparr>"
proof -
  assume lines: "split_on CHR 0x0A text = preamble @ concat (map block_lines blocks)"
    and pre: "list_all plain_line preamble"
    and perm: "mset blocks = {#(Winner, hw, lw), (BattleLog, hl, ll), (Analysis, ha, la), (Summary, hs, ls)#}"
    and wf: "list_all well_formed_block blocks"
  define fin where "fin = parse_lines pokemon1 pokemon2 parse_init (split_on CHR 0x0A text)"
  have "parse_lines pokemon1 pokemon2 parse_init preamble = parse_init"
    using pre by (intro parse_plain_ignored) (simp_all add: parse_init_def)
  then have fin: "fin = foldl (block_effect pokemon1 pokemon2) parse_init blocks"
    using parse_blocks [OF wf] by (simp add: fin_def lines parse_lines_append)
  have fw: "filter (\<lambda>b. fst b = Winner) blocks = [(Winner, hw, lw)]"
  proof -
    have "mset (filter (\<lambda>b. fst b = Winner) blocks) = {#(Winner, hw, lw)#}" by (simp add: perm)
    then show ?thesis by (simp only: mset_single_iff)
  qed
  have fl: "filter (\<lambda>b. fst b = BattleLog) blocks = [(BattleLog, hl, ll)]"
  proof -
    have "mset (filter (\<lambda>b. fst b = BattleLog) blocks) = {#(BattleLog, hl, ll)#}" by (simp add: perm)
    then show ?thesis by (simp only: mset_single_iff)
  qed
  have fa: "filter (\<lambda>b. fst b = Analysis) blocks = [(Analysis, ha, la)]"
  proof -
    have "mset (filter (\<lambda>b. fst b = Analysis) blocks) = {#(Analysis, ha, la)#}" by (simp add: perm)
    then show ?thesis by (simp only: mset_single_iff)
  qed
  have fs: "filter (\<lambda>b. fst b = Summary) blocks = [(Summary, hs, ls)]"
  proof -
    have "mset (filter (\<lambda>b. fst b = Summary) blocks) = {#(Summary, hs, ls)#}" by (simp add: perm)
    then show ?thesis by (simp only: mset_single_iff)
  qed
  have mem: "set blocks = {(Winner, hw, lw), (BattleLog, hl, ll), (Analysis, ha, la), (Summary, hs, ls)}"
  proof -
    have "set_mset (mset blocks) = {(Winner, hw, lw), (BattleLog, hl, ll), (Analysis, ha, la), (Summary, hs, ls)}"
      unfolding perm by simp
    then show ?thesis by simp
  qed
  have wfs: "declared_name hw \<noteq> []" "content_lines ll \<noteq> []" "content_lines la \<noteq> []" "content_lines ls \<noteq> []"
    using wf unfolding list_all_iff mem by simp_all
  have w: "ps_winner fin = declared_name hw"
    and l: "ps_loser fin = (if toLowerCase (declared_name hw) = toLowerCase (name pokemon1)
               then name pokemon2 else name pokemon1)"
    using winner_after_blocks [of pokemon1 pokemon2 parse_init blocks] by (simp_all add: fin fw)
  have lg: "ps_battleLog fin = content_lines ll"
    by (simp add: fin log_after_blocks fl parse_init_def)
  have an: "ps_analysis fin = join '' '' (content_lines la)"
    by (simp add: fin analysis_after_blocks fa parse_init_def acc_join_empty content_lines_nonempty)
  have su: "ps_summary fin = join '' '' (content_lines ls)"
    by (simp add: fin summary_after_blocks fs parse_init_def acc_join_empty content_lines_nonempty)
  have an_ne: "join '' '' (content_lines la) \<noteq> []"
    using wfs(3) by (intro join_nonempty content_lines_nonempty)
  have su_ne: "join '' '' (content_lines ls) \<noteq> []"
    using wfs(4) by (intro join_nonempty content_lines_nonempty)
  show ?thesis
    unfolding parseBattleResult_def fin_def [symmetric] finish_parse_def Let_def
    using wfs(1,2) an_ne su_ne by (simp add: w l lg an su)
qed

theorem C4_sections_recovered_witness:
  "split_on CHR 0x0A shuffled_narrative = [''Here is the battle.''] @ concat (map block_lines shuffled_blocks) \<and>
   list_all plain_line [''Here is the battle.''] \<and>
   mset shuffled_blocks =
     {#(Winner, '' **WINNER:**  Pikachu '', [[]]),
       (BattleLog, ''**BATTLE LOG:**'',
          [''Turn 1: Pikachu used Thunderbolt!'', ''   Turn 2: Onix used Rock Throw!  '', []]),
       (Analysis, ''**STRATEGIC ANALYSIS:**'', [''Speed decided it.'', ''Onix was too slow.'']),
       (Summary, ''**SUMMARY:**'', [''Pikachu won.'', []])#} \<and>
   list_all well_formed_block shuffled_blocks \<and>
   parseBattleResult shuffled_narrative pikachu onix =
     \<lparr>winner = ''Pikachu'', loser = ''onix'',
      battleLog = [''Turn 1: Pikachu used Thunderbolt!'', ''Turn 2: Onix used Rock Throw!''],
      analysis = ''Speed decided it. Onix was too slow.'',
      summary = ''Pikachu won.''\<rparr>"
proof -
  have lines: "split_on CHR 0x0A shuffled_narrative =
      [''Here is the battle.''] @ concat (map block_lines shuffled_blocks)"
    by code_simp
  have pre: "list_all plain_line [''Here is the battle.'']"
    by code_simp
  have perm: "mset shuffled_blocks =
     {#(Winner, '' **WINNER:**  Pikachu '', [[]]),
       (BattleLog, ''**BATTLE LOG:**'',
          [''Turn 1: Pikachu used Thunderbolt!'', ''   Turn 2: Onix used Rock Throw!  '', []]),
       (Analysis, ''**STRATEGIC ANALYSIS:**'', [''Speed decided it.'', ''Onix was too slow.'']),
       (Summary, ''**SUMMARY:**'', [''Pikachu won.'', []])#}"
    by (simp add: shuffled_blocks_def add_mset_commute)
  have wf: "list_all well_formed_block shuffled_blocks"
    by code_simp
  have vals: "declared_name '' **WINNER:**  Pikachu '' = ''Pikachu''"
      "toLowerCase ''Pikachu'' = toLowerCase (name pikachu)"
      "name onix = ''onix''"
      "content_lines [''Turn 1: Pikachu used Thunderbolt!'', ''   Turn 2: Onix used Rock Throw!  '', []] =
         [''Turn 1: Pikachu used Thunderbolt!'', ''Turn 2: Onix used Rock Throw!'']"
      "join '' '' (content_lines [''Speed decided it.'', ''Onix was too slow.'']) =
         ''Speed decided it. Onix was too slow.''"
      "join '' '' (content_lines [''Pikachu won.'', []]) = ''Pikachu won.''"
    by code_simp+
  show ?thesis
    using C4_sections_recovered [OF lines pre perm wf, of pikachu onix] lines pre perm wf
    by (simp only: vals) simp
qed

end
